theory Spec2Isabelle
  imports Complex_Main "HOL-Library.Log_Nat" "HOL-Library.Multiset"
begin

section \<open>JavaScript numbers and strings\<close>

text \<open>
  The quiz pages compute with JavaScript numbers, which are IEEE-754 binary64 values.
  Counters, points and indices are integers far below \<open>2^53\<close> and are exact, so they are
  modelled as \<open>int\<close>.  The score percentage is the one place where a quotient is formed
  (\<^verbatim>\<open>Math.round((correctCount / questions.length) * 100)\<close>), so division and
  multiplication are modelled with their binary64 rounding: the exact rational result is
  rounded to the nearest value with a 53-bit significand, ties to the even significand.
  The exponent is left unbounded; all values occurring here lie in the normal range of
  binary64, where this is exactly the IEEE result.
\<close>

definition pow2 :: "int \<Rightarrow> rat" where
  "pow2 e = (if 0 \<le> e then 2 ^ nat e else 1 / 2 ^ nat (- e))"

definition ilog2 :: "rat \<Rightarrow> int" where
  \<comment> \<open>the integer \<open>k\<close> with \<open>2^k \<le> x < 2^(k+1)\<close>, for positive \<open>x\<close>\<close>
  "ilog2 x =
     (let (p, q) = quotient_of x;
          k = bitlen p - bitlen q
      in if x < pow2 k then k - 1 else k)"

definition round_ties_even :: "rat \<Rightarrow> int" where
  "round_ties_even r =
     (let f = \<lfloor>r\<rfloor>; d = r - of_int f
      in if d < 1 / 2 then f
         else if 1 / 2 < d then f + 1
         else if even f then f else f + 1)"

definition fl64 :: "rat \<Rightarrow> rat" where
  \<comment> \<open>the binary64 value nearest to \<open>x\<close>\<close>
  "fl64 x =
     (if x = 0 then 0
      else let a = \<bar>x\<bar>; e = ilog2 a - 52
           in sgn x * of_int (round_ties_even (a / pow2 e)) * pow2 e)"

definition js_div :: "rat \<Rightarrow> rat \<Rightarrow> rat" where
  "js_div a b = fl64 (a / b)"

definition js_mul :: "rat \<Rightarrow> rat \<Rightarrow> rat" where
  "js_mul a b = fl64 (a * b)"

definition Math_round :: "rat \<Rightarrow> int" where
  \<comment> \<open>\<^verbatim>\<open>Math.round\<close>: the nearest integer, a tie going up\<close>
  "Math_round y = \<lfloor>y + 1 / 2\<rfloor>"

definition round_half_up :: "int \<Rightarrow> int \<Rightarrow> int" where
  \<comment> \<open>the specification's \<open>round(100 * c / n)\<close> in exact arithmetic\<close>
  "round_half_up c n = \<lfloor>(100 * of_int c / of_int n + 1 / 2 :: rat)\<rfloor>"

text \<open>Decimal rendering of an integer, as a template literal does it.\<close>

fun digits_of :: "nat \<Rightarrow> string" where
  "digits_of n =
     (if n < 10 then [char_of (48 + n)]
      else digits_of (n div 10) @ [char_of (48 + n mod 10)])"

declare digits_of.simps [simp del]

definition Number_toString :: "int \<Rightarrow> string" where
  "Number_toString i = (if i < 0 then CHR ''-'' # digits_of (nat (- i)) else digits_of (nat i))"

text \<open>
  The numbers that \<^verbatim>\<open>parseInt\<close> returns and the countdown holds: an integral binary64
  value, \<^verbatim>\<open>NaN\<close>, or an infinity.  \<open>toDouble i\<close> is the JavaScript number nearest to
  the integer \<open>i\<close>: the integer itself up to \<open>2^53\<close>, the nearest value with a 53-bit
  significand beyond, and an infinity when that value does not fit the exponent range of
  binary64.
\<close>

datatype Number = NaN | Num int | PosInfinity | NegInfinity

definition toDouble :: "int \<Rightarrow> Number" where
  "toDouble i =
     (let y = fl64 (of_int i)
      in if 2 ^ 1024 \<le> y then PosInfinity
         else if y \<le> - (2 ^ 1024) then NegInfinity
         else Num \<lfloor>y\<rfloor>)"

text \<open>
  \<^verbatim>\<open>parseInt(s, 10)\<close>: leading white space is skipped, an optional sign is read, then
  the longest prefix of decimal digits; with no digit the result is \<^verbatim>\<open>NaN\<close>, otherwise
  the number nearest to the integer the digits denote.  A string is the list of its code
  units, taken below 256; of these, the white space and line terminators of the language
  are 9 to 13, 32 and 160.
\<close>

definition is_space :: "char \<Rightarrow> bool" where
  "is_space c =
     ((9::nat) \<le> of_char c \<and> of_char c \<le> (13::nat) \<or> of_char c = (32::nat) \<or> of_char c = (160::nat))"

definition is_digit :: "char \<Rightarrow> bool" where
  "is_digit c = ((48::nat) \<le> of_char c \<and> of_char c \<le> (57::nat))"

definition digits_value :: "string \<Rightarrow> nat" where
  "digits_value ds = foldl (\<lambda>acc c. 10 * acc + (of_char c - 48)) 0 ds"

definition parseInt :: "string \<Rightarrow> Number" where
  "parseInt s =
     (let t = dropWhile is_space s;
          neg = (t \<noteq> [] \<and> hd t = CHR ''-'');
          u = (if t \<noteq> [] \<and> (hd t = CHR ''-'' \<or> hd t = CHR ''+'') then tl t else t);
          ds = takeWhile is_digit u
      in if ds = [] then NaN
         else toDouble (if neg then - int (digits_value ds) else int (digits_value ds)))"

text \<open>
  \<^verbatim>\<open>Math.min(a, n)\<close> and \<^verbatim>\<open>a * 60\<close> for a number \<open>a\<close> and an array length \<open>n\<close>; the
  product is rounded to binary64.
\<close>

definition Math_min :: "Number \<Rightarrow> int \<Rightarrow> Number" where
  "Math_min a b =
     (case a of
        NaN \<Rightarrow> NaN
      | Num x \<Rightarrow> Num (min x b)
      | PosInfinity \<Rightarrow> Num b
      | NegInfinity \<Rightarrow> NegInfinity)"

definition times60 :: "Number \<Rightarrow> Number" where
  "times60 a =
     (case a of
        NaN \<Rightarrow> NaN
      | Num x \<Rightarrow> toDouble (x * 60)
      | PosInfinity \<Rightarrow> PosInfinity
      | NegInfinity \<Rightarrow> NegInfinity)"

text \<open>
  \<^verbatim>\<open>xs.slice(0, end)\<close>: \<^verbatim>\<open>NaN\<close> counts as 0, a negative end counts from the back, and
  the end is clamped to the range from 0 to the length.
\<close>

definition slice0 :: "'a list \<Rightarrow> Number \<Rightarrow> 'a list" where
  "slice0 xs end =
     (case end of
        NaN \<Rightarrow> []
      | Num e \<Rightarrow>
          take (nat (if e < 0 then max (int (length xs) + e) 0 else min e (int (length xs)))) xs
      | PosInfinity \<Rightarrow> xs
      | NegInfinity \<Rightarrow> [])"


section \<open>Data model\<close>

text \<open>
  A JSON value as the persistence service returns it for a \<^verbatim>\<open>jsonb\<close> column.  At run
  time the field \<^verbatim>\<open>options\<close> of a question holds whatever the loader stored there, so
  it is a JSON value, whatever the interface declares.
\<close>

datatype JsValue =
    JNull
  | JBool bool
  | JNumber rat
  | JString string
  | JArray "JsValue list"
  | JObject "(string \<times> JsValue) list"

datatype Level = beginner | intermediate | advanced

record Quiz =
  quiz_ident :: string
  title :: string
  lesson_id :: string
  difficulty :: string
  passing_score :: int

text \<open>
  \<open>Question\<close> is the interface of the secure exam page; the quiz page's interface adds
  \<^verbatim>\<open>explanation\<close> and \<^verbatim>\<open>order_index\<close>.
\<close>

record Question =
  qid :: string
  question :: string
  options :: JsValue
  correct_answer :: int
  points :: int

record QuizQuestion = Question +
  explanation :: "string option"
  order_index :: int

record Lesson =
  lesson_ident :: string
  course_id :: string
  lesson_title :: string

record Profile =
  total_points :: "int option"
  current_level :: "Level option"

record AttemptRecord =
  user_id :: string
  quiz_id :: string
  attempt_score :: int
  correct_answers :: int
  total_questions :: int
  time_taken_seconds :: int

record Recommendation =
  rec_user_id :: string
  rec_lesson_id :: string
  reason :: string
  priority :: int

datatype Toast =
    QuizNotFound
  | LevelUp "Level option"
  | ViolationWarning string int
  | ExamSubmitted int

section \<open>Scoring\<close>

text \<open>
  Both submit handlers run the same loop over the presented questions:
  \<^verbatim>\<open>questions.forEach(q => { if (answers.get(q.id) === q.correct_answer)
  { correctCount++; totalPoints += q.points; } })\<close>.
  The accumulator pair is \<open>(correctCount, totalPoints)\<close>; a missing entry is
  \<^verbatim>\<open>undefined\<close>, which is not strictly equal to any number.
\<close>

fun scoreLoop :: "('a Question_scheme) list \<Rightarrow> (string \<rightharpoonup> int) \<Rightarrow> int \<times> int \<Rightarrow> int \<times> int" where
  "scoreLoop [] answers acc = acc"
| "scoreLoop (q # qs) answers (correctCount, totalPoints) =
     scoreLoop qs answers
       (if answers (qid q) = Some (correct_answer q)
        then (correctCount + 1, totalPoints + points q)
        else (correctCount, totalPoints))"

definition scorePercentage :: "int \<Rightarrow> int \<Rightarrow> int" where
  \<comment> \<open>\<^verbatim>\<open>Math.round((correctCount / questions.length) * 100)\<close>\<close>
  "scorePercentage correctCount n = Math_round (js_mul (js_div (of_int correctCount) (of_int n)) 100)"

section \<open>The quiz page\<close>

text \<open>
  The state of the \<^verbatim>\<open>QuizView\<close> component with question sampling and timer, together
  with the rows it writes through the persistence service.  The earlier \<^verbatim>\<open>QuizView\<close>
  without the setup screen has the same \<^verbatim>\<open>handleSelectAnswer\<close> and
  \<^verbatim>\<open>handleSubmitQuiz\<close>, word for word.  Every handler of this page is called from the
  render that shows the current state (click handlers are re-bound on every render, and the
  timer effect lists every state it reads among its dependencies), so a handler is a function
  of the current state.
\<close>

record QuizState =
  user :: "string option"
  quizId :: "string option"
  quiz :: "Quiz option"
  lesson :: "Lesson option"
  allQuestions :: "QuizQuestion list"
  questions :: "QuizQuestion list"
  currentQuestionIndex :: int
  selectedAnswers :: "string \<rightharpoonup> int"
  isSubmitted :: bool
  score :: int
  isLoading :: bool
  startTime :: int
  showExplanation :: bool
  quizStarted :: bool
  selectedQuestionCount :: string
  timerEnabled :: bool
  timerMinutes :: string
  timeRemaining :: "Number option"
  timerExpired :: bool
  quiz_attempts :: "AttemptRecord list"
  profiles :: "string \<rightharpoonup> Profile"
  recommendations :: "Recommendation list"
  toasts :: "Toast list"
  route :: "string option"

definition handleSelectAnswer :: "string \<Rightarrow> int \<Rightarrow> QuizState \<Rightarrow> QuizState" where
  "handleSelectAnswer questionId answerIndex s =
     (if isSubmitted s then s
      else s\<lparr>selectedAnswers := (selectedAnswers s)(questionId \<mapsto> answerIndex)\<rparr>)"

text \<open>The block of \<^verbatim>\<open>handleSubmitQuiz\<close> under the comment "Update points in profile".\<close>

definition updatePoints :: "string \<Rightarrow> int \<Rightarrow> QuizState \<Rightarrow> QuizState" where
  "updatePoints uid totalPoints s =
     (case profiles s uid of
        None \<Rightarrow> s
      | Some profile \<Rightarrow>
          let newPoints = (case total_points profile of None \<Rightarrow> 0 | Some p \<Rightarrow> p) + totalPoints;
              newLevel =
                (if 500 \<le> newPoints \<and> current_level profile = Some beginner then Some intermediate
                 else if 1500 \<le> newPoints \<and> current_level profile = Some intermediate then Some advanced
                 else current_level profile);
              s1 = s\<lparr>profiles := (profiles s)(uid \<mapsto>
                      profile\<lparr>total_points := Some newPoints, current_level := newLevel\<rparr>)\<rparr>
          in if newLevel \<noteq> current_level profile
             then s1\<lparr>toasts := toasts s1 @ [LevelUp newLevel]\<rparr>
             else s1)"

definition reasonText :: "int \<Rightarrow> string" where
  "reasonText scorePct =
     ''Review this lesson - you scored '' @ Number_toString scorePct @ ''% on the quiz''"

definition handleSubmitQuiz :: "int \<Rightarrow> QuizState \<Rightarrow> QuizState" where
  "handleSubmitQuiz now s =
     (case (user s, quiz s) of
        (Some uid, Some qz) \<Rightarrow>
          if questions s = [] then s
          else
            let (correctCount, totalPoints) = scoreLoop (questions s) (selectedAnswers s) (0, 0);
                scorePct = scorePercentage correctCount (int (length (questions s)));
                s1 = s\<lparr>score := scorePct, isSubmitted := True\<rparr>;
                timeTaken = Math_round (js_div (of_int (now - startTime s)) 1000);
                s2 = s1\<lparr>quiz_attempts := quiz_attempts s1 @
                       [\<lparr>user_id = uid, quiz_id = quiz_ident qz, attempt_score = scorePct,
                         correct_answers = correctCount,
                         total_questions = int (length (questions s)),
                         time_taken_seconds = timeTaken\<rparr>]\<rparr>;
                s3 = (if passing_score qz \<le> scorePct then updatePoints uid totalPoints s2 else s2)
            in (case lesson s of
                  Some l \<Rightarrow>
                    if scorePct < passing_score qz
                    then s3\<lparr>recommendations := recommendations s3 @
                           [\<lparr>rec_user_id = uid, rec_lesson_id = lesson_ident l,
                             reason = reasonText scorePct, priority = 10\<rparr>]\<rparr>
                    else s3
                | None \<Rightarrow> s3)
      | _ \<Rightarrow> s)"

definition handleRetry :: "QuizState \<Rightarrow> QuizState" where
  "handleRetry s =
     s\<lparr>selectedAnswers := Map.empty, isSubmitted := False, score := 0,
       currentQuestionIndex := 0, showExplanation := False, quizStarted := False,
       questions := [], timeRemaining := None, timerExpired := False\<rparr>"


subsection \<open>Loading\<close>

text \<open>
  \<^verbatim>\<open>parseOptions\<close> normalises the \<^verbatim>\<open>options\<close> column of a question row.  The two
  built-ins it calls are parameters: \<open>JSON_parse\<close> gives \<open>None\<close> where
  \<^verbatim>\<open>JSON.parse\<close> throws a \<^verbatim>\<open>SyntaxError\<close>, and \<open>String\<close> is the conversion of a
  value to a string.  The result is what the function returns at run time, which the
  declared type \<^verbatim>\<open>string[]\<close> does not constrain.
\<close>

definition parseOptions :: "(string \<Rightarrow> JsValue option) \<Rightarrow> (JsValue \<Rightarrow> string) \<Rightarrow> JsValue \<Rightarrow> JsValue" where
  "parseOptions JSON_parse String opts =
     (case opts of
        JArray xs \<Rightarrow> JArray (map (\<lambda>opt. JString (String opt)) xs)
      | JString str \<Rightarrow> (case JSON_parse str of Some v \<Rightarrow> v | None \<Rightarrow> JArray [])
      | _ \<Rightarrow> JArray [])"

fun is_JString :: "JsValue \<Rightarrow> bool" where
  "is_JString (JString s) = True"
| "is_JString v = False"

fun is_string_list :: "JsValue \<Rightarrow> bool" where
  "is_string_list (JArray xs) = list_all is_JString xs"
| "is_string_list v = False"

record QuestionRow =
  row_id :: string
  row_question :: string
  row_options :: JsValue
  row_correct_answer :: int
  row_explanation :: "string option"
  row_points :: "int option"
  row_order_index :: "int option"

text \<open>
  The persistence service as the loader reads it: the two tables searched by primary key,
  and for each quiz identifier the answer to the ordered question query (\<open>None\<close> when the
  query fails).
\<close>

record Backend =
  quizzes :: "Quiz list"
  lessons :: "Lesson list"
  quiz_questions :: "string \<Rightarrow> QuestionRow list option"

definition maybeSingle :: "'a list \<Rightarrow> 'a option" where
  "maybeSingle rows = (case rows of [r] \<Rightarrow> Some r | _ \<Rightarrow> None)"

definition formatQuestion :: "(string \<Rightarrow> JsValue option) \<Rightarrow> (JsValue \<Rightarrow> string) \<Rightarrow> QuestionRow \<Rightarrow> QuizQuestion" where
  "formatQuestion JSON_parse String q =
     \<lparr>qid = row_id q, question = row_question q,
      options = parseOptions JSON_parse String (row_options q),
      correct_answer = row_correct_answer q,
      points = (case row_points q of None \<Rightarrow> 10 | Some p \<Rightarrow> if p = 0 then 10 else p),
      explanation = row_explanation q,
      order_index = (case row_order_index q of None \<Rightarrow> 0 | Some i \<Rightarrow> i)\<rparr>"

definition fetchQuizData :: "(string \<Rightarrow> JsValue option) \<Rightarrow> (JsValue \<Rightarrow> string) \<Rightarrow> Backend \<Rightarrow> QuizState \<Rightarrow> QuizState" where
  "fetchQuizData JSON_parse String db s =
     (case (user s, quizId s) of
        (Some uid, Some qzid) \<Rightarrow>
          let s1 = s\<lparr>isLoading := True\<rparr> in
          (case maybeSingle (filter (\<lambda>q. quiz_ident q = qzid) (quizzes db)) of
             None \<Rightarrow> s1\<lparr>toasts := toasts s1 @ [QuizNotFound], route := Some ''/courses''\<rparr>
           | Some quizData \<Rightarrow>
               let s2 = s1\<lparr>quiz := Some quizData\<rparr>;
                   s3 = (case maybeSingle (filter (\<lambda>l. lesson_ident l = lesson_id quizData) (lessons db)) of
                           Some lessonData \<Rightarrow> s2\<lparr>lesson := Some lessonData\<rparr>
                         | None \<Rightarrow> s2);
                   s4 = (case quiz_questions db qzid of
                           Some questionsData \<Rightarrow>
                             s3\<lparr>allQuestions := map (formatQuestion JSON_parse String) questionsData\<rparr>
                         | None \<Rightarrow> s3)
               in s4\<lparr>isLoading := False\<rparr>)
      | _ \<Rightarrow> s)"

subsection \<open>Setup, sampling and timer\<close>

definition getQuestionCountOptions :: "QuizState \<Rightarrow> string list" where
  "getQuestionCountOptions s =
     (let total = length (allQuestions s);
          o0 = [''all''];
          o1 = (if 5 \<le> total then ''5'' # o0 else o0);
          o2 = (if 10 \<le> total then ''10'' # o1 else o1);
          o3 = (if 15 \<le> total then ''15'' # o2 else o2);
          o4 = (if 20 \<le> total then ''20'' # o3 else o3)
      in rev o4)"

text \<open>
  \<^verbatim>\<open>startQuiz\<close>.  The sampling is
  \<^verbatim>\<open>[...allQuestions].sort(() => Math.random() - 0.5).slice(0, Math.min(count, allQuestions.length))\<close>.
  The outcome of the engine's sort under the random comparator is the parameter
  \<open>random_sort\<close>; \<open>now\<close> is the reading of \<^verbatim>\<open>Date.now()\<close>.
\<close>

definition startQuiz :: "(QuizQuestion list \<Rightarrow> QuizQuestion list) \<Rightarrow> int \<Rightarrow> QuizState \<Rightarrow> QuizState" where
  "startQuiz random_sort now s =
     (let selectedQuestions =
            (if selectedQuestionCount s \<noteq> ''all''
             then let count = parseInt (selectedQuestionCount s)
                  in slice0 (random_sort (allQuestions s))
                       (Math_min count (int (length (allQuestions s))))
             else allQuestions s);
          s1 = s\<lparr>questions := selectedQuestions, startTime := now\<rparr>;
          s2 = (if timerEnabled s
                then s1\<lparr>timeRemaining := Some (times60 (parseInt (timerMinutes s)))\<rparr>
                else s1)
      in s2\<lparr>quizStarted := True\<rparr>)"

text \<open>
  The timer effect runs after every render in which one of \<^verbatim>\<open>quizStarted\<close>,
  \<^verbatim>\<open>timerEnabled\<close>, \<^verbatim>\<open>timeRemaining\<close>, \<^verbatim>\<open>isSubmitted\<close> has changed.  It either
  submits, or installs a one-second interval whose callback is \<open>countDown\<close>.
  A comparison with \<^verbatim>\<open>NaN\<close> is false, and the difference \<^verbatim>\<open>prev - 1\<close> is rounded to
  binary64.
\<close>

definition timerActive :: "QuizState \<Rightarrow> bool" where
  "timerActive s = (quizStarted s \<and> timerEnabled s \<and> timeRemaining s \<noteq> None \<and> \<not> isSubmitted s)"

definition timerEffect :: "int \<Rightarrow> QuizState \<Rightarrow> QuizState" where
  "timerEffect now s =
     (if \<not> timerActive s then s
      else case timeRemaining s of
             Some (Num t) \<Rightarrow>
               if t \<le> 0 then handleSubmitQuiz now (s\<lparr>timerExpired := True\<rparr>) else s
           | Some NegInfinity \<Rightarrow> handleSubmitQuiz now (s\<lparr>timerExpired := True\<rparr>)
           | _ \<Rightarrow> s)"

definition countDown :: "Number option \<Rightarrow> Number option" where
  "countDown prev =
     (case prev of
        None \<Rightarrow> Some (Num 0)
      | Some NaN \<Rightarrow> Some NaN
      | Some (Num p) \<Rightarrow> if p \<le> 0 then Some (Num 0) else Some (toDouble (p - 1))
      | Some PosInfinity \<Rightarrow> Some PosInfinity
      | Some NegInfinity \<Rightarrow> Some (Num 0))"

definition intervalRunning :: "QuizState \<Rightarrow> bool" where
  "intervalRunning s =
     (timerActive s
      \<and> (case timeRemaining s of
            Some (Num t) \<Rightarrow> \<not> t \<le> 0
          | Some NegInfinity \<Rightarrow> False
          | _ \<Rightarrow> True))"

definition intervalTick :: "QuizState \<Rightarrow> QuizState" where
  "intervalTick s =
     (if intervalRunning s then s\<lparr>timeRemaining := countDown (timeRemaining s)\<rparr> else s)"

text \<open>One second of the timer: the interval fires, the page renders, the effect runs.\<close>

definition oneSecond :: "int \<Rightarrow> QuizState \<Rightarrow> QuizState" where
  "oneSecond now s = timerEffect now (intervalTick s)"


subsection \<open>A small quiz\<close>

text \<open>
  A quiz of ten questions worth ten points each, whose correct option is always the first,
  a student, and the component right after mounting.
\<close>

definition quizQ :: "string \<Rightarrow> QuizQuestion" where
  "quizQ i = \<lparr>qid = i, question = ''?'', options = JArray [JString ''yes'', JString ''no''],
              correct_answer = 0, points = 10, explanation = None, order_index = 0\<rparr>"

definition tenQuestions :: "QuizQuestion list" where
  "tenQuestions = map quizQ [''a'', ''b'', ''c'', ''d'', ''e'', ''f'', ''g'', ''h'', ''i'', ''j'']"

definition demoQuiz :: Quiz where
  "demoQuiz = \<lparr>quiz_ident = ''q1'', title = ''Quiz'', lesson_id = ''l1'',
               difficulty = ''beginner'', passing_score = 70\<rparr>"

definition demoLesson :: Lesson where
  "demoLesson = \<lparr>lesson_ident = ''l1'', course_id = ''c1'', lesson_title = ''Lesson''\<rparr>"

definition mounted :: QuizState where
  "mounted =
     \<lparr>user = Some ''u1'', quizId = Some ''q1'', quiz = None, lesson = None, allQuestions = [],
      questions = [], currentQuestionIndex = 0, selectedAnswers = Map.empty, isSubmitted = False,
      score = 0, isLoading = True, startTime = 0, showExplanation = False, quizStarted = False,
      selectedQuestionCount = ''all'', timerEnabled = False, timerMinutes = ''10'',
      timeRemaining = None, timerExpired = False, quiz_attempts = [],
      profiles = [''u1'' \<mapsto> \<lparr>total_points = Some 450, current_level = Some beginner\<rparr>],
      recommendations = [], toasts = [], route = None\<rparr>"

text \<open>The quiz loaded and started with all ten questions, and the first \<open>k\<close> answered right.\<close>

definition inProgress :: "nat \<Rightarrow> QuizState" where
  "inProgress k =
     mounted\<lparr>quiz := Some demoQuiz, lesson := Some demoLesson, allQuestions := tenQuestions,
             questions := tenQuestions, isLoading := False, quizStarted := True,
             selectedAnswers := map_of (map (\<lambda>q. (qid q, 0)) (take k tenQuestions))\<rparr>"

definition answeredCorrectly :: "(string \<rightharpoonup> int) \<Rightarrow> 'a Question_scheme \<Rightarrow> bool" where
  "answeredCorrectly as q = (as (qid q) = Some (correct_answer q))"

definition rank :: "Level option \<Rightarrow> nat" where
  "rank l = (case l of None \<Rightarrow> 0 | Some beginner \<Rightarrow> 1 | Some intermediate \<Rightarrow> 2 | Some advanced \<Rightarrow> 3)"

section \<open>The secure exam page\<close>

text \<open>
  The state of the \<^verbatim>\<open>SecureExam\<close> component.  The counters of an exam session come
  from nullable columns and are read as \<^verbatim>\<open>examSession[field] || 0\<close>.
\<close>

datatype ViolationType = tab_switch | fullscreen_exit

record ExamSession =
  session_ident :: string
  session_quiz_id :: string
  started_at :: string
  tab_switches :: "int option"
  fullscreen_exits :: "int option"
  is_flagged :: bool

record ExamView =
  exam_user :: "string option"
  exam_quizId :: "string option"
  examSession :: "ExamSession option"
  exam_questions :: "Question list"
  currentQuestion :: int
  answers :: "string \<rightharpoonup> int"
  isFullscreen :: bool
  showWarning :: bool
  warningMessage :: string
  timeLeft :: int
  isSubmitting :: bool
  examStarted :: bool

text \<open>A row of the table \<^verbatim>\<open>exam_sessions\<close>.\<close>

record ExamSessionRow =
  row_tab_switches :: "int option"
  row_fullscreen_exits :: "int option"
  row_is_flagged :: "bool option"
  row_flag_reason :: "string option"
  row_ended :: bool
  row_is_active :: bool

text \<open>
  A handler of this page is a closure made by one render of the component: the state it
  reads (\<^verbatim>\<open>isSubmitting\<close>, \<^verbatim>\<open>answers\<close>, \<^verbatim>\<open>examSession\<close>, ...) is the tuple of constants
  of that render, a value of \<open>ExamView\<close>, while what it writes goes to the current state of
  the component and to the outside.  The world holds the current state \<open>view\<close>, the tables
  written, and every callback that outlives the render that made it, together with that
  render: the listener for \<^verbatim>\<open>visibilitychange\<close>, the listener for
  \<^verbatim>\<open>fullscreenchange\<close> (\<open>None\<close> while the effect has installed none), and the callbacks
  handed to \<^verbatim>\<open>setTimeout\<close> that have not fired yet.  A click handler belongs to the
  latest render, so it is called with \<open>view w\<close>.
\<close>

record ExamWorld =
  view :: ExamView
  visibilityListener :: "ExamView option"
  fullscreenListener :: "ExamView option"
  exam_sessions :: "string \<rightharpoonup> ExamSessionRow"
  attempts :: "AttemptRecord list"
  pendingTimeouts :: "ExamView list"
  exam_toasts :: "Toast list"
  fullscreenElement :: bool
  exam_route :: "string option"

definition or_zero :: "int option \<Rightarrow> int" where
  "or_zero v = (case v of None \<Rightarrow> 0 | Some n \<Rightarrow> n)"

definition counter :: "ViolationType \<Rightarrow> ExamSession \<Rightarrow> int option" where
  "counter type es = (if type = tab_switch then tab_switches es else fullscreen_exits es)"

definition flagReason :: "ViolationType \<Rightarrow> string" where
  "flagReason type =
     ''Multiple '' @ (if type = tab_switch then ''tab switch'' else ''fullscreen exit'') @ ''s detected''"

definition handleSecurityViolation :: "ExamView \<Rightarrow> ViolationType \<Rightarrow> ExamWorld \<Rightarrow> ExamWorld" where
  "handleSecurityViolation r type w =
     (case examSession r of
        None \<Rightarrow> w
      | Some es \<Rightarrow>
          let newCount = or_zero (counter type es) + 1;
              w1 = (case exam_sessions w (session_ident es) of
                      None \<Rightarrow> w
                    | Some row \<Rightarrow>
                        let row1 = (if type = tab_switch
                                    then row\<lparr>row_tab_switches := Some newCount\<rparr>
                                    else row\<lparr>row_fullscreen_exits := Some newCount\<rparr>)
                        in w\<lparr>exam_sessions := (exam_sessions w)(session_ident es \<mapsto>
                              row1\<lparr>row_is_flagged := Some (3 \<le> newCount),
                                   row_flag_reason :=
                                     (if 3 \<le> newCount then Some (flagReason type) else None)\<rparr>)\<rparr>);
              es1 = (if type = tab_switch
                     then es\<lparr>tab_switches := Some newCount\<rparr>
                     else es\<lparr>fullscreen_exits := Some newCount\<rparr>);
              w2 = w1\<lparr>view := (view w1)\<lparr>examSession := Some (es1\<lparr>is_flagged := 3 \<le> newCount\<rparr>)\<rparr>\<rparr>
          in if 3 \<le> newCount
             then w2\<lparr>view := (view w2)\<lparr>warningMessage :=
                        ''Your exam has been flagged due to multiple security violations. The exam will now end.'',
                      showWarning := True\<rparr>,
                    pendingTimeouts := pendingTimeouts w2 @ [r]\<rparr>
             else w2\<lparr>exam_toasts := exam_toasts w2 @
                    [ViolationWarning (if type = tab_switch then ''Tab switch'' else ''Fullscreen exit'') newCount]\<rparr>)"

definition handleAnswerSelect :: "ExamView \<Rightarrow> string \<Rightarrow> int \<Rightarrow> ExamWorld \<Rightarrow> ExamWorld" where
  "handleAnswerSelect r questionId answerIndex w =
     w\<lparr>view := (view w)\<lparr>answers := (answers r)(questionId \<mapsto> answerIndex)\<rparr>\<rparr>"

definition examScore :: "ExamView \<Rightarrow> int" where
  "examScore r =
     (let (correctCount, totalPoints) = scoreLoop (exam_questions r) (answers r) (0, 0)
      in if 0 < length (exam_questions r)
         then scorePercentage correctCount (int (length (exam_questions r)))
         else 0)"

text \<open>
  \<^verbatim>\<open>handleSubmitExam\<close> ends with \<^verbatim>\<open>navigate('/dashboard')\<close>: the page is left, the
  component is unmounted and the clean-up of its effects removes the two listeners.  A
  callback handed to \<^verbatim>\<open>setTimeout\<close> is not cancelled by that.
\<close>

definition handleSubmitExam :: "ExamView \<Rightarrow> ExamWorld \<Rightarrow> ExamWorld" where
  "handleSubmitExam r w =
     (if isSubmitting r then w
      else
        let w1 = w\<lparr>view := (view w)\<lparr>isSubmitting := True\<rparr>\<rparr>;
            (correctCount, totalPoints) = scoreLoop (exam_questions r) (answers r) (0, 0);
            score = examScore r;
            w2 = (case (exam_user r, exam_quizId r) of
                    (Some uid, Some qzid) \<Rightarrow>
                      let w3 = w1\<lparr>attempts := attempts w1 @
                                 [\<lparr>user_id = uid, quiz_id = qzid, attempt_score = score,
                                   correct_answers = correctCount,
                                   total_questions = int (length (exam_questions r)),
                                   time_taken_seconds = 1800 - timeLeft r\<rparr>]\<rparr>
                      in (case examSession r of
                            None \<Rightarrow> w3
                          | Some es \<Rightarrow>
                              (case exam_sessions w3 (session_ident es) of
                                 None \<Rightarrow> w3
                               | Some row \<Rightarrow>
                                   w3\<lparr>exam_sessions := (exam_sessions w3)(session_ident es \<mapsto>
                                        row\<lparr>row_ended := True, row_is_active := False\<rparr>)\<rparr>))
                  | _ \<Rightarrow> w1)
        in w2\<lparr>fullscreenElement := False,
              exam_toasts := exam_toasts w2 @ [ExamSubmitted score],
              exam_route := Some ''/dashboard'',
              visibilityListener := None, fullscreenListener := None\<rparr>)"

text \<open>
  The two effects that install the listeners.  The one for \<^verbatim>\<open>visibilitychange\<close> has the
  dependencies \<^verbatim>\<open>[examStarted, examSession]\<close> and installs nothing unless the exam has
  started and a session exists; the one for \<^verbatim>\<open>fullscreenchange\<close> has the dependencies
  \<^verbatim>\<open>[examStarted, isFullscreen]\<close> and installs nothing unless the exam has started.  When
  an effect runs again, its listener is replaced by the one of the render just made.
\<close>

definition visibilityEffect :: "ExamWorld \<Rightarrow> ExamWorld" where
  "visibilityEffect w =
     w\<lparr>visibilityListener :=
         (if examStarted (view w) \<and> examSession (view w) \<noteq> None then Some (view w) else None)\<rparr>"

definition fullscreenEffect :: "ExamWorld \<Rightarrow> ExamWorld" where
  "fullscreenEffect w =
     w\<lparr>fullscreenListener := (if examStarted (view w) then Some (view w) else None)\<rparr>"

text \<open>
  A call of \<^verbatim>\<open>handleSecurityViolation\<close> from the render \<open>r\<close>, followed by the render it
  causes.  If that render has a session, the handler ends with \<^verbatim>\<open>setExamSession\<close> of a
  new object, so \<^verbatim>\<open>examSession\<close> changes and the visibility effect runs again; the
  fullscreen effect does not depend on \<^verbatim>\<open>examSession\<close> and keeps its listener.
\<close>

definition violationFrom :: "ExamView \<Rightarrow> ViolationType \<Rightarrow> ExamWorld \<Rightarrow> ExamWorld" where
  "violationFrom r type w =
     (case examSession r of
        None \<Rightarrow> w
      | Some es \<Rightarrow> visibilityEffect (handleSecurityViolation r type w))"

text \<open>The document becomes hidden and \<^verbatim>\<open>visibilitychange\<close> is dispatched.\<close>

definition visibilityHidden :: "ExamWorld \<Rightarrow> ExamWorld" where
  "visibilityHidden w =
     (case visibilityListener w of
        None \<Rightarrow> w
      | Some r \<Rightarrow> violationFrom r tab_switch w)"

text \<open>
  The document enters (\<open>b\<close> true) or leaves (\<open>b\<close> false) fullscreen and
  \<^verbatim>\<open>fullscreenchange\<close> is dispatched.  The listener of the render \<open>r\<close> tests
  \<^verbatim>\<open>!document.fullscreenElement && isFullscreen\<close> with the \<^verbatim>\<open>isFullscreen\<close> of \<open>r\<close>, starts
  \<^verbatim>\<open>handleSecurityViolation\<close> of \<open>r\<close>, and calls \<^verbatim>\<open>setIsFullscreen\<close>.  The handler
  writes to the state only after its request to the persistence service has returned, so
  \<^verbatim>\<open>setIsFullscreen\<close> and the render it causes come first; the fullscreen effect runs
  again in that render if \<^verbatim>\<open>isFullscreen\<close> has changed.
\<close>

definition fullscreenChange :: "bool \<Rightarrow> ExamWorld \<Rightarrow> ExamWorld" where
  "fullscreenChange b w =
     (let w1 = w\<lparr>fullscreenElement := b\<rparr>
      in case fullscreenListener w1 of
           None \<Rightarrow> w1
         | Some r \<Rightarrow>
             let w2 = w1\<lparr>view := (view w1)\<lparr>isFullscreen := b\<rparr>\<rparr>;
                 w3 = (if isFullscreen (view w1) = b then w2 else fullscreenEffect w2)
             in if \<not> b \<and> isFullscreen r then violationFrom r fullscreen_exit w3 else w3)"

text \<open>
  The events of a running exam.  A violation is recorded when the browser dispatches the
  event of its kind: the document becomes hidden, or it leaves fullscreen.  Buttons carry the
  handlers of the latest render.  A time-out calls the \<^verbatim>\<open>handleSubmitExam\<close> of the render
  whose handler scheduled it.
\<close>

definition recordViolation :: "ViolationType \<Rightarrow> ExamWorld \<Rightarrow> ExamWorld" where
  "recordViolation type w =
     (if type = tab_switch then visibilityHidden w else fullscreenChange False w)"

text \<open>
  \<^verbatim>\<open>startExam\<close>, called from the render \<open>r\<close>.  \<open>granted\<close> tells whether the request
  for fullscreen succeeded; \<open>inserted\<close> is the answer of the persistence service to the
  insertion of the session, \<open>None\<close> for an error and otherwise the identifier and the start
  time it generated.  The other columns of the new row take the defaults of the table
  definition.  \<^verbatim>\<open>setExamSession\<close> and \<^verbatim>\<open>setExamStarted\<close> are followed by a render in
  which both effects run.
\<close>

definition defaultRow :: ExamSessionRow where
  "defaultRow =
     \<lparr>row_tab_switches = Some 0, row_fullscreen_exits = Some 0, row_is_flagged = Some False,
      row_flag_reason = None, row_ended = False, row_is_active = True\<rparr>"

definition startExam :: "ExamView \<Rightarrow> bool \<Rightarrow> (string \<times> string) option \<Rightarrow> ExamWorld \<Rightarrow> ExamWorld" where
  "startExam r granted inserted w =
     (case (exam_user r, exam_quizId r) of
        (Some uid, Some qzid) \<Rightarrow>
          let w1 = (if granted
                    then w\<lparr>fullscreenElement := True, view := (view w)\<lparr>isFullscreen := True\<rparr>\<rparr>
                    else w)
          in (case inserted of
                None \<Rightarrow> w1
              | Some (ident, ts) \<Rightarrow>
                  let session = \<lparr>session_ident = ident, session_quiz_id = qzid, started_at = ts,
                                 tab_switches = Some 0, fullscreen_exits = Some 0,
                                 is_flagged = False\<rparr>;
                      w2 = w1\<lparr>exam_sessions := (exam_sessions w1)(ident \<mapsto> defaultRow),
                              view := (view w1)\<lparr>examSession := Some session,
                                                 examStarted := True\<rparr>\<rparr>
                  in fullscreenEffect (visibilityEffect w2))
      | _ \<Rightarrow> w)"

definition clickStart :: "bool \<Rightarrow> (string \<times> string) option \<Rightarrow> ExamWorld \<Rightarrow> ExamWorld" where
  "clickStart granted inserted w = startExam (view w) granted inserted w"

text \<open>The button "Next": \<^verbatim>\<open>setCurrentQuestion((prev) => Math.min(questions.length - 1, prev + 1))\<close>.\<close>

definition clickNext :: "ExamWorld \<Rightarrow> ExamWorld" where
  "clickNext w =
     w\<lparr>view := (view w)\<lparr>currentQuestion :=
          min (int (length (exam_questions (view w))) - 1) (currentQuestion (view w) + 1)\<rparr>\<rparr>"

definition clickSubmit :: "ExamWorld \<Rightarrow> ExamWorld" where
  "clickSubmit w = handleSubmitExam (view w) w"

definition clickAnswer :: "string \<Rightarrow> int \<Rightarrow> ExamWorld \<Rightarrow> ExamWorld" where
  "clickAnswer questionId answerIndex w = handleAnswerSelect (view w) questionId answerIndex w"

definition fireTimeout :: "ExamWorld \<Rightarrow> ExamWorld" where
  "fireTimeout w =
     (case pendingTimeouts w of
        [] \<Rightarrow> w
      | r # rs \<Rightarrow> handleSubmitExam r (w\<lparr>pendingTimeouts := rs\<rparr>))"

definition recordAll :: "ViolationType list \<Rightarrow> ExamWorld \<Rightarrow> ExamWorld" where
  "recordAll types w = foldl (\<lambda>w type. recordViolation type w) w types"

text \<open>
  What the page holds: the flag of the session in the state, and the two counters, whose
  sum the header shows out of 3.
\<close>

definition flagged :: "ExamWorld \<Rightarrow> bool" where
  "flagged w = (case examSession (view w) of None \<Rightarrow> False | Some es \<Rightarrow> is_flagged es)"

definition count_of :: "ViolationType \<Rightarrow> ExamWorld \<Rightarrow> int" where
  "count_of type w = (case examSession (view w) of None \<Rightarrow> 0 | Some es \<Rightarrow> or_zero (counter type es))"

definition combined :: "ExamWorld \<Rightarrow> int" where
  "combined w = count_of tab_switch w + count_of fullscreen_exit w"

text \<open>What the table holds for a session: its flag, and the sum of its two counters.\<close>

definition rowFlagged :: "ExamWorld \<Rightarrow> string \<Rightarrow> bool option" where
  "rowFlagged w ident = (case exam_sessions w ident of None \<Rightarrow> None | Some row \<Rightarrow> row_is_flagged row)"

definition rowTotal :: "ExamWorld \<Rightarrow> string \<Rightarrow> int" where
  "rowTotal w ident =
     (case exam_sessions w ident of
        None \<Rightarrow> 0
      | Some row \<Rightarrow> or_zero (row_tab_switches row) + or_zero (row_fullscreen_exits row))"

subsection \<open>A small exam\<close>

text \<open>
  An exam of two questions: the page once the questions are loaded, and the exam in
  progress, with the session \<^verbatim>\<open>s1\<close> stored, fullscreen granted and the student on the
  second question.  The listeners are those of the render that followed \<^verbatim>\<open>startExam\<close>.
\<close>

definition examQ :: "string \<Rightarrow> int \<Rightarrow> Question" where
  "examQ i c = \<lparr>qid = i, question = ''?'', options = JArray [], correct_answer = c, points = 10\<rparr>"

definition examLoaded :: ExamWorld where
  "examLoaded =
     \<lparr>view = \<lparr>exam_user = Some ''u1'', exam_quizId = Some ''q1'', examSession = None,
              exam_questions = [examQ ''a'' 0, examQ ''b'' 1], currentQuestion = 0,
              answers = Map.empty, isFullscreen = False, showWarning = False, warningMessage = [],
              timeLeft = 1800, isSubmitting = False, examStarted = False\<rparr>,
      visibilityListener = None, fullscreenListener = None,
      exam_sessions = Map.empty, attempts = [], pendingTimeouts = [],
      exam_toasts = [], fullscreenElement = False, exam_route = None\<rparr>"

definition freshSession :: ExamSession where
  "freshSession =
     \<lparr>session_ident = ''s1'', session_quiz_id = ''q1'', started_at = ''t0'',
      tab_switches = Some 0, fullscreen_exits = Some 0, is_flagged = False\<rparr>"

definition freshRow :: ExamSessionRow where
  "freshRow =
     \<lparr>row_tab_switches = Some 0, row_fullscreen_exits = Some 0, row_is_flagged = Some False,
      row_flag_reason = None, row_ended = False, row_is_active = True\<rparr>"

definition startedView :: ExamView where
  "startedView =
     \<lparr>exam_user = Some ''u1'', exam_quizId = Some ''q1'', examSession = Some freshSession,
      exam_questions = [examQ ''a'' 0, examQ ''b'' 1], currentQuestion = 0,
      answers = Map.empty, isFullscreen = True, showWarning = False, warningMessage = [],
      timeLeft = 1800, isSubmitting = False, examStarted = True\<rparr>"

definition freshWorld :: ExamWorld where
  "freshWorld =
     \<lparr>view = startedView\<lparr>currentQuestion := 1\<rparr>,
      visibilityListener = Some startedView, fullscreenListener = Some startedView,
      exam_sessions = [''s1'' \<mapsto> freshRow], attempts = [], pendingTimeouts = [],
      exam_toasts = [], fullscreenElement = True, exam_route = None\<rparr>"

text \<open>The exam while its submission is being stored: \<^verbatim>\<open>setIsSubmitting(true)\<close> has run.\<close>

definition submittingWorld :: ExamWorld where
  "submittingWorld = freshWorld\<lparr>view := (view freshWorld)\<lparr>isSubmitting := True\<rparr>\<rparr>"



text \<open>
  The visibility listener is up to date: the exam has started, and the render that made the
  listener holds the session that the current state holds.
\<close>

definition upToDate :: "ExamWorld \<Rightarrow> bool" where
  "upToDate w =
     (examStarted (view w)
      \<and> (case visibilityListener w of
            None \<Rightarrow> False
          | Some r \<Rightarrow> examSession r \<noteq> None \<and> examSession r = examSession (view w)))"
text \<open>
  The numbers a submission works with, read off the state: how many of the presented
  questions are answered with the correct option, the points those questions carry, and the
  percentage computed from the count.
\<close>

definition correctCount_of :: "QuizState \<Rightarrow> int" where
  "correctCount_of s = int (length (filter (answeredCorrectly (selectedAnswers s)) (questions s)))"

definition totalPoints_of :: "QuizState \<Rightarrow> int" where
  "totalPoints_of s = sum_list (map points (filter (answeredCorrectly (selectedAnswers s)) (questions s)))"

definition percentage_of :: "QuizState \<Rightarrow> int" where
  "percentage_of s = scorePercentage (correctCount_of s) (int (length (questions s)))"

text \<open>
  The loader stores the lesson it found under the quiz's \<^verbatim>\<open>lesson_id\<close>; this relates the
  two state variables.
\<close>

definition lessonOfQuiz :: "QuizState \<Rightarrow> bool" where
  "lessonOfQuiz s =
     (case (quiz s, lesson s) of (Some qz, Some l) \<Rightarrow> lesson_ident l = lesson_id qz | _ \<Rightarrow> True)"

definition demoBackend :: Backend where
  "demoBackend =
     \<lparr>quizzes = [demoQuiz], lessons = [demoLesson],
      quiz_questions = (\<lambda>i. if i = ''q1''
        then Some (map (\<lambda>i. \<lparr>row_id = i, row_question = ''?'',
                              row_options = JArray [JString ''yes'', JString ''no''],
                              row_correct_answer = 0, row_explanation = None,
                              row_points = Some 10, row_order_index = Some 0\<rparr>)
                    [''a'', ''b'', ''c'', ''d'', ''e'', ''f'', ''g'', ''h'', ''i'', ''j''])
        else None)\<rparr>"

definition noParse :: "string \<Rightarrow> JsValue option" where
  "noParse str = None"

fun stringOnly :: "JsValue \<Rightarrow> string" where
  "stringOnly (JString str) = str"
| "stringOnly v = []"

text \<open>The small quiz, loaded from the service and started, and the same without its lesson.\<close>

definition loadedQuiz :: "nat \<Rightarrow> QuizState" where
  "loadedQuiz k =
     (startQuiz rev 0 (fetchQuizData noParse stringOnly demoBackend mounted))
       \<lparr>selectedAnswers := map_of (map (\<lambda>q. (qid q, 0)) (take k tenQuestions))\<rparr>"

definition lessonMissing :: QuizState where
  "lessonMissing = (inProgress 5)\<lparr>lesson := None\<rparr>"

subsection \<open>A running quiz\<close>

text \<open>
  What can happen on the question screen before the student submits: a second passes (the
  interval fires and the timer effect runs, reading the clock), an option is chosen, or the
  cursor moves to another question.
\<close>

datatype QuizEvent = Tick int | Select string int | Goto int

fun quizStep :: "QuizEvent \<Rightarrow> QuizState \<Rightarrow> QuizState" where
  "quizStep (Tick now) s = oneSecond now s"
| "quizStep (Select questionId answerIndex) s = handleSelectAnswer questionId answerIndex s"
| "quizStep (Goto i) s = s\<lparr>currentQuestionIndex := i\<rparr>"

definition runQuiz :: "QuizEvent list \<Rightarrow> QuizState \<Rightarrow> QuizState" where
  "runQuiz evs s = foldl (\<lambda>s e. quizStep e s) s evs"

fun isTick :: "QuizEvent \<Rightarrow> bool" where
  "isTick (Tick now) = True"
| "isTick e = False"

definition elapsed :: "QuizEvent list \<Rightarrow> int" where
  "elapsed evs = int (length (filter isTick evs))"

text \<open>
  The clock.  A \<open>Tick\<close> carries the reading of \<^verbatim>\<open>Date.now()\<close> at which the timer effect
  runs after the firing.  The interval is set to 1000 milliseconds and is installed anew by
  the effect of every render in which the countdown has changed, so a firing comes no
  earlier than 1000 milliseconds after the effect that installed its interval; it may come
  later.  \<open>spaced t evs\<close> says that much of the readings in \<open>evs\<close>, for a quiz whose timer
  effect last ran at \<open>t\<close>.
\<close>

fun spaced :: "int \<Rightarrow> QuizEvent list \<Rightarrow> bool" where
  "spaced t [] = True"
| "spaced t (Tick now # evs) = (t + 1000 \<le> now \<and> spaced now evs)"
| "spaced t (Select questionId answerIndex # evs) = spaced t evs"
| "spaced t (Goto i # evs) = spaced t evs"

text \<open>
  The deadline as the specification words it, on the clock of \<^verbatim>\<open>Date.now()\<close>, which
  counts milliseconds: the start time plus \<open>m * 60\<close> seconds.  \<open>before d evs\<close> says that
  every firing in \<open>evs\<close> reads the clock before \<open>d\<close>.
\<close>

definition spec_deadline :: "int \<Rightarrow> int \<Rightarrow> int" where
  "spec_deadline t0 m = t0 + m * 60 * 1000"

definition before :: "int \<Rightarrow> QuizEvent list \<Rightarrow> bool" where
  "before d evs = list_all (\<lambda>e. case e of Tick now \<Rightarrow> now < d | _ \<Rightarrow> True) evs"

text \<open>\<open>n\<close> firings, one every \<open>d\<close> milliseconds from the reading \<open>t\<close> on.\<close>

definition ticksEvery :: "int \<Rightarrow> int \<Rightarrow> nat \<Rightarrow> QuizEvent list" where
  "ticksEvery d t n = map (\<lambda>i. Tick (t + d * int i)) [1..<Suc n]"

text \<open>The start of a quiz: \<^verbatim>\<open>startQuiz\<close>, the render, and the first run of the timer effect.\<close>

definition beginQuiz :: "(QuizQuestion list \<Rightarrow> QuizQuestion list) \<Rightarrow> int \<Rightarrow> QuizState \<Rightarrow> QuizState" where
  "beginQuiz random_sort now s = timerEffect now (startQuiz random_sort now s)"

text \<open>A quiz whose countdown stands at \<open>r\<close> seconds and that is otherwise as it began.\<close>

definition counting :: "QuizState \<Rightarrow> int \<Rightarrow> QuizState \<Rightarrow> bool" where
  "counting s1 r s =
     (quizStarted s \<and> timerEnabled s \<and> \<not> isSubmitted s \<and> user s = user s1 \<and> quiz s = quiz s1
      \<and> questions s = questions s1 \<and> quiz_attempts s = quiz_attempts s1
      \<and> startTime s = startTime s1 \<and> timeRemaining s = Some (Num r))"

text \<open>A stand-in for \<^verbatim>\<open>JSON.parse\<close> that knows one text, for running the loader.\<close>

definition parseFortyTwo :: "string \<Rightarrow> JsValue option" where
  "parseFortyTwo str = (if str = ''42'' then Some (JNumber 42) else None)"

text \<open>The small quiz on the setup screen with five questions and a one-minute timer chosen.\<close>

definition configured :: QuizState where
  "configured =
     (fetchQuizData noParse stringOnly demoBackend mounted)
       \<lparr>selectedQuestionCount := ''5'', timerEnabled := True, timerMinutes := ''1''\<rparr>"

text \<open>An exam of forty questions on which the first twenty-three are answered right.\<close>

definition fortyQuestions :: "Question list" where
  "fortyQuestions = map (\<lambda>i. examQ (digits_of i) 0) [0..<40]"

definition twentyThreeRight :: ExamView where
  "twentyThreeRight =
     (view freshWorld)\<lparr>exam_questions := fortyQuestions,
                        answers := map_of (map (\<lambda>q. (qid q, 0)) (take 23 fortyQuestions))\<rparr>"

section \<open>Properties of the scoring\<close>

subsection \<open>The rounding error of the percentage\<close>

lemma pow2_power_int: "pow2 e = power_int 2 e"
  by (simp add: pow2_def power_int_def power_one_over)

lemma pow2_pos: "0 < pow2 e"
  by (simp add: pow2_power_int)

lemma pow2_add: "pow2 (a + b) = pow2 a * pow2 b"
  by (simp add: pow2_power_int power_int_add)

lemma pow2_nat: "0 \<le> e \<Longrightarrow> pow2 e = 2 ^ nat e"
  by (simp add: pow2_def)

lemma round_ties_even_error: "\<bar>of_int (round_ties_even r) - r\<bar> \<le> 1 / 2"
proof -
  let ?f = "\<lfloor>r\<rfloor>"
  have lo: "of_int ?f \<le> r" by simp
  have hi: "r < of_int ?f + 1" using floor_correct [of r] by simp
  have "round_ties_even r = ?f \<and> r - of_int ?f \<le> 1 / 2
        \<or> round_ties_even r = ?f + 1 \<and> 1 / 2 \<le> r - of_int ?f"
    by (simp add: round_ties_even_def Let_def)
  then show ?thesis
  proof
    assume a: "round_ties_even r = ?f \<and> r - of_int ?f \<le> 1 / 2"
    then have "\<bar>of_int (round_ties_even r) - r\<bar> = r - of_int ?f" using lo by simp
    then show ?thesis using a by simp
  next
    assume a: "round_ties_even r = ?f + 1 \<and> 1 / 2 \<le> r - of_int ?f"
    then have "\<bar>of_int (round_ties_even r) - r\<bar> = of_int ?f + 1 - r" using hi by simp
    then show ?thesis using a by simp
  qed
qed

lemma ilog2_bounds:
  assumes "0 < x"
  shows "pow2 (ilog2 x) \<le> x" and "x < pow2 (ilog2 x + 1)"
proof -
  obtain p q where pq: "quotient_of x = (p, q)" by (cases "quotient_of x")
  have q: "0 < q" using pq by (rule quotient_of_denom_pos)
  have x: "x = of_int p / of_int q" using pq by (rule quotient_of_div)
  have p: "0 < p"
    using assms q by (simp add: x zero_less_divide_iff)
  let ?bp = "bitlen p" and ?bq = "bitlen q"
  have bp: "1 \<le> ?bp" using p by (simp add: bitlen_alt_def)
  have bq: "1 \<le> ?bq" using q by (simp add: bitlen_alt_def)
  have pb: "2 ^ nat (?bp - 1) \<le> p" "p < 2 ^ nat ?bp" using bitlen_bounds [OF p] by simp_all
  have qb: "2 ^ nat (?bq - 1) \<le> q" "q < 2 ^ nat ?bq" using bitlen_bounds [OF q] by simp_all
  have P1: "pow2 (?bp - 1) \<le> of_int p"
  proof -
    have "(of_int (2 ^ nat (?bp - 1)) :: rat) \<le> of_int p" using pb(1) by (simp only: of_int_le_iff)
    then show ?thesis using bp by (simp add: pow2_nat)
  qed
  have P2: "of_int p < pow2 ?bp"
  proof -
    have "(of_int p :: rat) < of_int (2 ^ nat ?bp)" using pb(2) by (simp only: of_int_less_iff)
    then show ?thesis using bp by (simp add: pow2_nat)
  qed
  have Q1: "pow2 (?bq - 1) \<le> of_int q"
  proof -
    have "(of_int (2 ^ nat (?bq - 1)) :: rat) \<le> of_int q" using qb(1) by (simp only: of_int_le_iff)
    then show ?thesis using bq by (simp add: pow2_nat)
  qed
  have Q2: "of_int q < pow2 ?bq"
  proof -
    have "(of_int q :: rat) < of_int (2 ^ nat ?bq)" using qb(2) by (simp only: of_int_less_iff)
    then show ?thesis using bq by (simp add: pow2_nat)
  qed
  let ?k = "?bp - ?bq"
  have qpos: "(0::rat) < of_int q" using q by simp
  have lo: "pow2 (?k - 1) < x"
  proof -
    have "pow2 (?k - 1) * pow2 ?bq = pow2 (?bp - 1)"
      by (simp add: pow2_add [symmetric])
    then have "pow2 (?k - 1) * pow2 ?bq \<le> of_int p" using P1 by simp
    moreover have "pow2 (?k - 1) * of_int q < pow2 (?k - 1) * pow2 ?bq"
      using Q2 pow2_pos [of "?k - 1"] by simp
    ultimately have "pow2 (?k - 1) * of_int q < of_int p" by linarith
    then show ?thesis using qpos by (simp add: x pos_less_divide_eq)
  qed
  have hi: "x < pow2 (?k + 1)"
  proof -
    have "pow2 (?k + 1) * pow2 (?bq - 1) = pow2 ?bp"
      by (simp add: pow2_add [symmetric])
    moreover have "pow2 (?k + 1) * pow2 (?bq - 1) \<le> pow2 (?k + 1) * of_int q"
      using Q1 pow2_pos [of "?k + 1"] by simp
    ultimately have "of_int p < pow2 (?k + 1) * of_int q" using P2 by linarith
    then show ?thesis using qpos by (simp add: x pos_divide_less_eq)
  qed
  have il: "ilog2 x = (if x < pow2 ?k then ?k - 1 else ?k)"
    by (simp add: ilog2_def pq Let_def)
  show "pow2 (ilog2 x) \<le> x" using lo by (simp add: il)
  show "x < pow2 (ilog2 x + 1)" using hi by (simp add: il)
qed

lemma fl64_error:
  assumes "0 \<le> x"
  shows "\<bar>fl64 x - x\<bar> \<le> x / 2 ^ 53"
proof (cases "x = 0")
  case True
  then show ?thesis by (simp add: fl64_def)
next
  case False
  with assms have pos: "0 < x" by simp
  let ?e = "ilog2 x - 52"
  let ?r = "x / pow2 ?e"
  have f: "fl64 x = of_int (round_ties_even ?r) * pow2 ?e"
    using pos by (simp add: fl64_def Let_def)
  have "fl64 x - x = (of_int (round_ties_even ?r) - ?r) * pow2 ?e"
    using pow2_pos [of ?e] by (simp add: f field_simps)
  then have "\<bar>fl64 x - x\<bar> = \<bar>of_int (round_ties_even ?r) - ?r\<bar> * pow2 ?e"
    using pow2_pos [of ?e] by (simp add: abs_mult)
  also have "\<dots> \<le> 1 / 2 * pow2 ?e"
    using round_ties_even_error [of ?r] pow2_pos [of ?e] by (simp add: mult_right_mono)
  also have "\<dots> \<le> x / 2 ^ 53"
  proof -
    have "pow2 (?e + 52) = pow2 ?e * 2 ^ 52"
      by (subst pow2_add) (simp add: pow2_def)
    then have "pow2 ?e * 2 ^ 52 \<le> x" using ilog2_bounds(1) [OF pos] by simp
    then show ?thesis by (simp add: field_simps)
  qed
  finally show ?thesis .
qed


lemma fl64_nonneg: "0 \<le> x \<Longrightarrow> 0 \<le> fl64 x"
proof -
  assume a: "0 \<le> x"
  have "x / 2 ^ 53 \<le> x" using a by (simp add: field_simps)
  then show ?thesis using fl64_error [OF a] by linarith
qed

lemma product_close:
  assumes "0 \<le> c" and "c \<le> n" and "0 < n"
  shows "\<bar>js_mul (js_div (of_int c) (of_int n)) 100 - 100 * of_int c / of_int n\<bar> < 1 / 2 ^ 45"
proof -
  let ?x = "of_int c / of_int n :: rat"
  let ?d = "fl64 ?x"
  let ?y = "fl64 (?d * 100)"
  have x0: "0 \<le> ?x" using assms by simp
  have x1: "?x \<le> 1" using assms by (simp add: divide_le_eq_1)
  have e1: "\<bar>?d - ?x\<bar> \<le> ?x / 2 ^ 53" by (rule fl64_error [OF x0])
  have d0: "0 \<le> ?d" by (rule fl64_nonneg [OF x0])
  have e1': "\<bar>?d - ?x\<bar> \<le> 1 / 2 ^ 53"
  proof -
    have "?x / 2 ^ 53 \<le> 1 / 2 ^ 53" using x1 by (simp add: divide_right_mono)
    then show ?thesis using e1 by linarith
  qed
  have d1: "?d \<le> 1 + 1 / 2 ^ 53" using e1' x1 by linarith
  have y0: "0 \<le> ?d * 100" using d0 by simp
  have e2: "\<bar>?y - ?d * 100\<bar> \<le> ?d * 100 / 2 ^ 53" by (rule fl64_error [OF y0])
  have "?d * 100 / 2 ^ 53 \<le> (1 + 1 / 2 ^ 53) * 100 / 2 ^ 53"
    using d1 by (simp add: divide_right_mono)
  also have "\<dots> \<le> 101 / 2 ^ 53" by simp
  finally have e2': "\<bar>?y - ?d * 100\<bar> \<le> 101 / 2 ^ 53" using e2 by linarith
  have "\<bar>?d * 100 - 100 * ?x\<bar> = 100 * \<bar>?d - ?x\<bar>" by (simp add: abs_if)
  then have e3: "\<bar>?d * 100 - 100 * ?x\<bar> \<le> 100 / 2 ^ 53" using e1' by simp
  have "\<bar>?y - 100 * ?x\<bar> \<le> 201 / 2 ^ 53" using e2' e3 by linarith
  moreover have "(201 :: rat) / 2 ^ 53 < 1 / 2 ^ 45" by simp
  ultimately have "\<bar>?y - 100 * ?x\<bar> < 1 / 2 ^ 45" by linarith
  then show ?thesis by (simp add: js_mul_def js_div_def)
qed

lemma percentage_bounds:
  assumes "0 \<le> c" and "c \<le> n" and "0 < n" and "n < 2 ^ 44"
  shows "round_half_up c n - 1 \<le> scorePercentage c n"
    and "scorePercentage c n \<le> round_half_up c n"
    and "\<not> 2 * n dvd 200 * c + n \<Longrightarrow> scorePercentage c n = round_half_up c n"
proof -
  let ?y = "js_mul (js_div (of_int c) (of_int n)) 100"
  let ?N = "200 * c + n"
  let ?k = "?N div (2 * n)"
  let ?z = "100 * of_int c / of_int n + 1 / 2 :: rat"
  have npos: "(0::rat) < of_int n" using assms(3) by simp
  have z: "?z = of_int ?N / of_int (2 * n)" using npos by (simp add: field_simps)
  have k: "round_half_up c n = ?k"
    unfolding round_half_up_def z by (rule floor_divide_of_int_eq)
  have sp: "scorePercentage c n = \<lfloor>?y + 1 / 2\<rfloor>"
    by (simp add: scorePercentage_def Math_round_def)
  have close: "\<bar>?y - 100 * of_int c / of_int n\<bar> < 1 / 2 ^ 45"
    by (rule product_close [OF assms(1-3)])
  have eps: "(1::rat) / 2 ^ 45 < 1 / of_int (2 * n)"
  proof -
    have "2 * n < 2 ^ 45" using assms(4) by simp
    then have "(of_int (2 * n) :: rat) < of_int (2 ^ 45)" by (simp only: of_int_less_iff)
    then have "(of_int (2 * n) :: rat) < 2 ^ 45" by simp
    moreover have "(0::rat) < of_int (2 * n)" using assms(3) by simp
    ultimately show ?thesis by (simp add: frac_less2)
  qed
  have dm: "?N = 2 * n * ?k + ?N mod (2 * n)" by simp
  have m0: "0 \<le> ?N mod (2 * n)" using assms(3) by simp
  have m1: "?N mod (2 * n) \<le> 2 * n - 1"
  proof -
    have "?N mod (2 * n) < 2 * n" using assms(3) by simp
    then show ?thesis by simp
  qed
  have zk: "?z = of_int ?k + of_int (?N mod (2 * n)) / of_int (2 * n)"
  proof -
    have "(of_int ?N :: rat) = of_int (2 * n * ?k + ?N mod (2 * n))" using dm by simp
    then have "(of_int ?N :: rat) = of_int (2 * n) * of_int ?k + of_int (?N mod (2 * n))"
      by (simp only: of_int_add of_int_mult)
    then show ?thesis using npos by (simp add: z field_simps)
  qed
  have pos2n: "(0::rat) < of_int (2 * n)" using assms(3) by simp
  have up: "?z \<le> of_int ?k + 1 - 1 / of_int (2 * n)"
  proof -
    have "(of_int (?N mod (2 * n)) :: rat) \<le> of_int (2 * n - 1)" using m1 by (simp only: of_int_le_iff)
    then have "(of_int (?N mod (2 * n)) :: rat) / of_int (2 * n) \<le> of_int (2 * n - 1) / of_int (2 * n)"
      using pos2n by (simp add: divide_right_mono)
    also have "\<dots> = 1 - 1 / of_int (2 * n)" using pos2n by (simp add: field_simps)
    finally show ?thesis by (simp add: zk)
  qed
  have lo: "of_int ?k \<le> ?z"
  proof -
    have "(0::rat) \<le> of_int (?N mod (2 * n)) / of_int (2 * n)" using m0 pos2n by simp
    then show ?thesis by (simp add: zk)
  qed
  have le': "?y + 1 / 2 < of_int ?k + 1" using close eps up by linarith
  have le: "\<lfloor>?y + 1 / 2\<rfloor> < ?k + 1"
    unfolding floor_less_iff using le' by simp
  have small: "(1::rat) / 2 ^ 45 < 1" by simp
  have ge': "of_int ?k - 1 \<le> ?y + 1 / 2" using close lo small by linarith
  have ge: "?k - 1 \<le> \<lfloor>?y + 1 / 2\<rfloor>"
    unfolding le_floor_iff using ge' by simp
  show "scorePercentage c n \<le> round_half_up c n"
    using le by (simp add: sp k)
  show "round_half_up c n - 1 \<le> scorePercentage c n"
    using ge by (simp add: sp k)
  show "scorePercentage c n = round_half_up c n" if nt: "\<not> 2 * n dvd 200 * c + n"
  proof -
    have "?N mod (2 * n) \<noteq> 0" using nt by (simp add: dvd_eq_mod_eq_0)
    with m0 have "1 \<le> ?N mod (2 * n)" by linarith
    then have "(of_int 1 :: rat) \<le> of_int (?N mod (2 * n))" by (simp only: of_int_le_iff)
    then have "(1::rat) / of_int (2 * n) \<le> of_int (?N mod (2 * n)) / of_int (2 * n)"
      using pos2n by (simp add: divide_right_mono)
    then have "of_int ?k + 1 / of_int (2 * n) \<le> ?z" by (simp add: zk)
    then have "of_int ?k \<le> ?y + 1 / 2" using close eps by linarith
    then have "?k \<le> \<lfloor>?y + 1 / 2\<rfloor>" unfolding le_floor_iff .
    then show ?thesis using le by (simp add: sp k)
  qed
qed


subsection \<open>Integers in binary64\<close>

text \<open>
  Integers below \<open>2^53\<close> in absolute value are binary64 values: the minutes that the
  setup offers, their product with 60 and every value of the countdown are exact.
\<close>

lemma pow2_mono: "a \<le> b \<Longrightarrow> pow2 a \<le> pow2 b"
  by (simp add: pow2_power_int power_int_increasing)

lemma round_ties_even_int: "round_ties_even (of_int n) = n"
  by (simp add: round_ties_even_def)

lemma fl64_int:
  assumes "\<bar>i\<bar> < 2 ^ 53"
  shows "fl64 (of_int i) = of_int i"
proof (cases "i = 0")
  case True
  then show ?thesis by (simp add: fl64_def)
next
  case False
  let ?a = "\<bar>of_int i :: rat\<bar>"
  let ?e = "ilog2 ?a - 52"
  have pos: "0 < ?a" using False by simp
  have "?a < of_int (2 ^ 53)" using assms by (simp only: of_int_abs [symmetric] of_int_less_iff)
  then have "?a < pow2 53" by (simp add: pow2_def)
  with ilog2_bounds(1) [OF pos] have "pow2 (ilog2 ?a) < pow2 53" by linarith
  then have "ilog2 ?a < 53" using pow2_mono [of 53 "ilog2 ?a"] by (cases "ilog2 ?a < 53") simp_all
  then have e: "?e \<le> 0" by simp
  have "pow2 ?e * pow2 (- ?e) = 1" by (simp add: pow2_add [symmetric] pow2_def)
  then have inv: "?a / pow2 ?e = ?a * pow2 (- ?e)"
    using pow2_pos [of ?e] by (simp add: field_simps)
  have "pow2 (- ?e) = of_int (2 ^ nat (- ?e))" using e by (simp add: pow2_nat)
  then have "?a / pow2 ?e = of_int (\<bar>i\<bar> * 2 ^ nat (- ?e))" by (simp add: inv)
  then have r: "of_int (round_ties_even (?a / pow2 ?e)) = ?a / pow2 ?e"
    by (simp only: round_ties_even_int)
  have "fl64 (of_int i) = sgn (of_int i) * of_int (round_ties_even (?a / pow2 ?e)) * pow2 ?e"
    using False by (simp add: fl64_def Let_def)
  also have "\<dots> = sgn (of_int i) * ?a"
    using pow2_pos [of ?e] by (simp add: r)
  also have "\<dots> = of_int i" by (simp add: sgn_mult_abs)
  finally show ?thesis .
qed

lemma toDouble_exact: "\<bar>i\<bar> < 2 ^ 53 \<Longrightarrow> toDouble i = Num i"
proof -
  assume a: "\<bar>i\<bar> < 2 ^ 53"
  have "(of_int \<bar>i\<bar> :: rat) < of_int (2 ^ 53)" using a by (simp only: of_int_less_iff)
  moreover have "(2::rat) ^ 53 < 2 ^ 1024" by simp
  ultimately have "\<bar>of_int i :: rat\<bar> < 2 ^ 1024" by simp
  then show ?thesis by (simp add: toDouble_def fl64_int [OF a] Let_def abs_less_iff)
qed

text \<open>
  Beyond \<open>2^53\<close> the numbers are rounded: \<^verbatim>\<open>parseInt\<close> of a long digit string and the
  product with 60 give the nearest binary64 value, a tie going to the even significand.
\<close>

lemma fl64_above:
  "fl64 9007199254740993 = 9007199254740992"
  "fl64 36028797018964020 = 36028797018964016"
  by code_simp+

lemma toDouble_above:
  "toDouble 9007199254740993 = Num 9007199254740992"
  "toDouble 36028797018964020 = Num 36028797018964016"
proof -
  have "fl64 (of_int 9007199254740993) = 9007199254740992"
    "fl64 (of_int 36028797018964020) = 36028797018964016"
    using fl64_above by simp_all
  then show "toDouble 9007199254740993 = Num 9007199254740992"
    "toDouble 36028797018964020 = Num 36028797018964016"
    by (simp_all add: toDouble_def)
qed

lemma parseInt_examples:
  "parseInt [CHR 0x09, CHR '' '', CHR ''4'', CHR ''2'', CHR ''p'', CHR ''x''] = Num 42"
  "parseInt ''-7'' = Num (- 7)"
  "parseInt ''all'' = NaN"
  "parseInt ''9007199254740993'' = Num 9007199254740992"
  using toDouble_exact [of 42] toDouble_exact [of "- 7"] toDouble_above(1)
  by (simp_all add: parseInt_def is_space_def is_digit_def digits_value_def)

lemma times60_example: "times60 (Num 600479950316067) = Num 36028797018964016"
  by (simp add: times60_def toDouble_above(2))

section \<open>Properties of the quiz page\<close>

lemma scoreLoop_filter:
  "scoreLoop qs as (c, t) =
     (c + int (length (filter (answeredCorrectly as) qs)),
      t + sum_list (map points (filter (answeredCorrectly as) qs)))"
  by (induction qs arbitrary: c t) (simp_all add: answeredCorrectly_def)

lemma updatePoints_other [simp]:
  "recommendations (updatePoints uid tp s) = recommendations s"
  "quiz_attempts (updatePoints uid tp s) = quiz_attempts s"
  "score (updatePoints uid tp s) = score s"
  "isSubmitted (updatePoints uid tp s) = isSubmitted s"
  "selectedAnswers (updatePoints uid tp s) = selectedAnswers s"
  by (simp_all add: updatePoints_def Let_def split: option.splits)

lemma submit_score:
  assumes "user s = Some uid" "quiz s = Some qz" "questions s \<noteq> []"
  shows "score (handleSubmitQuiz now s) = percentage_of s"
    and "isSubmitted (handleSubmitQuiz now s)"
  using assms
  by (simp_all add: handleSubmitQuiz_def scoreLoop_filter Let_def percentage_of_def correctCount_of_def
      split: option.splits)

lemma submit_attempts:
  assumes "user s = Some uid" "quiz s = Some qz" "questions s \<noteq> []"
  shows "quiz_attempts (handleSubmitQuiz now s) = quiz_attempts s @
           [\<lparr>user_id = uid, quiz_id = quiz_ident qz, attempt_score = percentage_of s,
             correct_answers = correctCount_of s, total_questions = int (length (questions s)),
             time_taken_seconds = Math_round (js_div (of_int (now - startTime s)) 1000)\<rparr>]"
  using assms
  by (simp add: handleSubmitQuiz_def scoreLoop_filter Let_def percentage_of_def correctCount_of_def
      split: option.splits)

lemma submit_profiles:
  assumes "user s = Some uid" "quiz s = Some qz" "questions s \<noteq> []"
  shows "profiles (handleSubmitQuiz now s) =
           (if passing_score qz \<le> percentage_of s
            then profiles (updatePoints uid (totalPoints_of s) s) else profiles s)"
  using assms
  by (simp add: handleSubmitQuiz_def scoreLoop_filter Let_def percentage_of_def correctCount_of_def
      totalPoints_of_def updatePoints_def split: option.splits)

lemma submit_recommendations:
  assumes "user s = Some uid" "quiz s = Some qz" "questions s \<noteq> []"
  shows "recommendations (handleSubmitQuiz now s) =
           (case lesson s of
              Some l \<Rightarrow> if percentage_of s < passing_score qz
                        then recommendations s @
                             [\<lparr>rec_user_id = uid, rec_lesson_id = lesson_ident l,
                               reason = reasonText (percentage_of s), priority = 10\<rparr>]
                        else recommendations s
            | None \<Rightarrow> recommendations s)"
  using assms
  by (simp add: handleSubmitQuiz_def scoreLoop_filter Let_def percentage_of_def correctCount_of_def
      split: option.splits)


lemma maybeSingle_filter: "maybeSingle (filter P xs) = Some x \<Longrightarrow> P x"
  by (cases "filter P xs") (auto simp: maybeSingle_def split: list.splits dest: filter_eq_ConsD)

lemma fetchQuizData_lessonOfQuiz:
  assumes "lesson s = None"
  shows "lessonOfQuiz (fetchQuizData JSON_parse String db s)"
  using assms
  by (auto simp: fetchQuizData_def lessonOfQuiz_def Let_def split: option.splits dest: maybeSingle_filter)

lemma fetch_demo: "fetchQuizData noParse stringOnly demoBackend mounted =
    mounted\<lparr>quiz := Some demoQuiz, lesson := Some demoLesson, allQuestions := tenQuestions, isLoading := False\<rparr>"
  by (simp add: fetchQuizData_def mounted_def demoBackend_def maybeSingle_def demoQuiz_def demoLesson_def
      formatQuestion_def parseOptions_def tenQuestions_def quizQ_def Let_def)

lemma inProgress_fields:
  "user (inProgress k) = Some ''u1''" "quiz (inProgress k) = Some demoQuiz"
  "questions (inProgress k) \<noteq> []"
  "profiles (inProgress k) ''u1'' = Some \<lparr>total_points = Some 450, current_level = Some beginner\<rparr>"
  "lesson (inProgress k) = Some demoLesson"
  by (simp_all add: inProgress_def mounted_def tenQuestions_def)

lemma inProgress_7: "percentage_of (inProgress 7) = 70" "totalPoints_of (inProgress 7) = 70"
  by (code_simp, code_simp)

lemma inProgress_5: "percentage_of (inProgress 5) = 50"
  by code_simp

lemma loadedQuiz_eq: "loadedQuiz k = inProgress k"
  unfolding loadedQuiz_def fetch_demo
  by (simp add: startQuiz_def inProgress_def mounted_def Let_def)

lemma startQuiz_keeps:
  "quiz (startQuiz random_sort now s) = quiz s"
  "lesson (startQuiz random_sort now s) = lesson s"
  "user (startQuiz random_sort now s) = user s"
  "isSubmitted (startQuiz random_sort now s) = isSubmitted s"
  by (simp_all add: startQuiz_def Let_def)

lemma loadedQuiz_lessonOfQuiz: "lessonOfQuiz (loadedQuiz k)"
proof -
  have "lessonOfQuiz (fetchQuizData noParse stringOnly demoBackend mounted)"
    by (rule fetchQuizData_lessonOfQuiz) (simp add: mounted_def)
  then show ?thesis
    by (simp add: loadedQuiz_def lessonOfQuiz_def startQuiz_keeps)
qed

text \<open>
  Claim C6.  On a submission that reaches the passing score, the profile of the user gets
  the old points plus the points of the correctly answered questions; a beginner becomes
  intermediate exactly when the new total is at least 500, an intermediate user becomes
  advanced exactly when it is at least 1500, any other level is kept, and the level never
  goes down.  On a submission below the passing score no profile is touched.
\<close>

theorem progression_policy:
  assumes "user s = Some uid" and "quiz s = Some qz" and "questions s \<noteq> []"
    and "profiles s uid = Some p"
  shows "(passing_score qz \<le> percentage_of s \<longrightarrow>
            (\<exists>p'. profiles (handleSubmitQuiz now s) uid = Some p'
               \<and> total_points p' = Some ((case total_points p of None \<Rightarrow> 0 | Some t \<Rightarrow> t) + totalPoints_of s)
               \<and> current_level p' =
                   (case current_level p of
                      Some beginner \<Rightarrow>
                        if 500 \<le> (case total_points p of None \<Rightarrow> 0 | Some t \<Rightarrow> t) + totalPoints_of s
                        then Some intermediate else Some beginner
                    | Some intermediate \<Rightarrow>
                        if 1500 \<le> (case total_points p of None \<Rightarrow> 0 | Some t \<Rightarrow> t) + totalPoints_of s
                        then Some advanced else Some intermediate
                    | l \<Rightarrow> l)
               \<and> rank (current_level p) \<le> rank (current_level p')))
       \<and> (percentage_of s < passing_score qz \<longrightarrow> profiles (handleSubmitQuiz now s) = profiles s)"
  using assms
  by (auto simp: submit_profiles updatePoints_def Let_def rank_def split: option.splits Level.splits)


theorem progression_policy_witness:
  "passing_score demoQuiz \<le> percentage_of (inProgress 7)
   \<and> profiles (handleSubmitQuiz 0 (inProgress 7)) ''u1''
       = Some \<lparr>total_points = Some 520, current_level = Some intermediate\<rparr>
   \<and> percentage_of (inProgress 5) < passing_score demoQuiz
   \<and> profiles (handleSubmitQuiz 0 (inProgress 5)) = profiles (inProgress 5)"
  using progression_policy [OF inProgress_fields(1-4), of 7 0]
        progression_policy [OF inProgress_fields(1-4), of 5 0]
  by (auto simp: inProgress_7 inProgress_5 demoQuiz_def)

text \<open>
  Claim C7, as the page implements it.  A recommendation is written exactly when the
  percentage is below the passing score and the lesson of the quiz has been loaded; it is
  then one record, for the lesson the quiz belongs to, whose reason contains the percentage
  in decimal and whose priority is 10.
\<close>

theorem recommendation_policy:
  assumes "user s = Some uid" and "quiz s = Some qz" and "questions s \<noteq> []"
    and "lessonOfQuiz s"
  shows "recommendations (handleSubmitQuiz now s) =
           (if percentage_of s < passing_score qz \<and> lesson s \<noteq> None
            then recommendations s @
                 [\<lparr>rec_user_id = uid, rec_lesson_id = lesson_id qz,
                   reason = ''Review this lesson - you scored '' @ Number_toString (percentage_of s)
                            @ ''% on the quiz'',
                   priority = 10\<rparr>]
            else recommendations s)"
  using assms
  by (auto simp: submit_recommendations lessonOfQuiz_def reasonText_def split: option.splits)

theorem recommendation_policy_witness:
  "recommendations (handleSubmitQuiz 0 (loadedQuiz 5)) =
     [\<lparr>rec_user_id = ''u1'', rec_lesson_id = ''l1'',
       reason = ''Review this lesson - you scored 50% on the quiz'', priority = 10\<rparr>]"
proof -
  have n: "Number_toString 50 = ''50''" by code_simp
  have r: "recommendations (inProgress 5) = []"
    by (simp add: inProgress_def mounted_def)
  show ?thesis
    using recommendation_policy [of "loadedQuiz 5" "''u1''" demoQuiz 0] loadedQuiz_lessonOfQuiz [of 5]
    by (simp add: loadedQuiz_eq inProgress_fields inProgress_5 demoQuiz_def n r)
qed

text \<open>
  C7 as stated fails when the lesson could not be loaded: the percentage is 50, the passing
  score 70, and no recommendation is written.
\<close>

theorem recommendation_without_lesson_counterexample:
  "score (handleSubmitQuiz 0 lessonMissing) = 50
   \<and> passing_score demoQuiz = 70
   \<and> recommendations (handleSubmitQuiz 0 lessonMissing) = recommendations lessonMissing"
  by code_simp

text \<open>
  Claim C8, as the pages implement it.  On the quiz page \<^verbatim>\<open>handleSelectAnswer\<close> leaves
  a submitted quiz unchanged, and before submission sets the entry of the given question
  and no other.  On the exam page \<^verbatim>\<open>handleAnswerSelect\<close> sets the entry of the given
  question and no other, whether a submission has begun or not.
\<close>

theorem selectAnswer_frame:
  "(isSubmitted s \<longrightarrow> handleSelectAnswer questionId answerIndex s = s)
   \<and> (\<not> isSubmitted s \<longrightarrow>
        handleSelectAnswer questionId answerIndex s
          = s\<lparr>selectedAnswers := (selectedAnswers s)(questionId \<mapsto> answerIndex)\<rparr>
        \<and> selectedAnswers (handleSelectAnswer questionId answerIndex s) questionId = Some answerIndex
        \<and> (\<forall>other. other \<noteq> questionId \<longrightarrow>
              selectedAnswers (handleSelectAnswer questionId answerIndex s) other = selectedAnswers s other))
   \<and> clickAnswer questionId answerIndex w
        = w\<lparr>view := (view w)\<lparr>answers := (answers (view w))(questionId \<mapsto> answerIndex)\<rparr>\<rparr>
   \<and> (\<forall>other. other \<noteq> questionId \<longrightarrow>
         answers (view (clickAnswer questionId answerIndex w)) other = answers (view w) other)"
  by (simp add: handleSelectAnswer_def clickAnswer_def handleAnswerSelect_def)

theorem selectAnswer_frame_witness:
  "isSubmitted (handleSubmitQuiz 0 (inProgress 5))
   \<and> handleSelectAnswer ''a'' 1 (handleSubmitQuiz 0 (inProgress 5)) = handleSubmitQuiz 0 (inProgress 5)
   \<and> \<not> isSubmitted (inProgress 5)
   \<and> selectedAnswers (handleSelectAnswer ''a'' 1 (inProgress 5)) ''a'' = Some 1
   \<and> selectedAnswers (handleSelectAnswer ''a'' 1 (inProgress 5)) ''b'' = selectedAnswers (inProgress 5) ''b''
   \<and> answers (view (clickAnswer ''a'' 1 freshWorld)) ''b'' = answers (view freshWorld) ''b''"
proof -
  have a: "isSubmitted (handleSubmitQuiz 0 (inProgress 5))"
    by (rule submit_score(2) [OF inProgress_fields(1-3)])
  have b: "\<not> isSubmitted (inProgress 5)"
    by (simp add: inProgress_def mounted_def)
  show ?thesis
    using a b selectAnswer_frame [of "handleSubmitQuiz 0 (inProgress 5)" "''a''" 1 freshWorld]
      selectAnswer_frame [of "inProgress 5" "''a''" 1 freshWorld]
    by simp
qed

text \<open>
  \<^verbatim>\<open>handleSubmitQuiz\<close> has no guard of its own against a second call: called twice on
  the same quiz it stores two attempts and adds the points twice.  On the page its two
  callers are guarded by \<^verbatim>\<open>isSubmitted\<close>: the timer effect tests it, and the submit
  button is not rendered once it is set.
\<close>

lemma handleSubmitQuiz_unguarded:
  "length (quiz_attempts (handleSubmitQuiz 1 (handleSubmitQuiz 0 (inProgress 7)))) = 2
   \<and> profiles (handleSubmitQuiz 1 (handleSubmitQuiz 0 (inProgress 7))) ''u1''
       = Some \<lparr>total_points = Some 590, current_level = Some intermediate\<rparr>"
  by code_simp

subsection \<open>Sampling and loading\<close>

lemma mset_take_subset: "mset (take n xs) \<subseteq># mset xs"
proof -
  have "mset xs = mset (take n xs) + mset (drop n xs)"
    by (metis append_take_drop_id mset_append)
  then show ?thesis by simp
qed

lemma configured_fields:
  "allQuestions configured = tenQuestions" "selectedQuestionCount configured = ''5''"
  by (simp_all add: configured_def fetch_demo)

lemma distinct_tenQuestions: "distinct tenQuestions"
  by (simp add: tenQuestions_def quizQ_def)

lemma parseInt_5: "parseInt ''5'' = Num 5"
  using toDouble_exact [of 5]
  by (simp add: parseInt_def is_space_def is_digit_def digits_value_def)

lemma parseOptions_array: "is_string_list (parseOptions JSON_parse String (JArray xs))"
  by (simp add: parseOptions_def list_all_iff)

lemma parseOptions_syntax_error:
  "JSON_parse str = None \<Longrightarrow> parseOptions JSON_parse String (JString str) = JArray []"
  by (simp add: parseOptions_def)

lemma parseOptions_other_shapes:
  "parseOptions JSON_parse String JNull = JArray []"
  "parseOptions JSON_parse String (JBool b) = JArray []"
  "parseOptions JSON_parse String (JNumber x) = JArray []"
  "parseOptions JSON_parse String (JObject members) = JArray []"
  by (simp_all add: parseOptions_def)

text \<open>
  Claim C5.  The engine's sort returns the questions of the pool in some order; that is the
  one assumption about \<open>random_sort\<close>.  With the choice "all" the session is the pool in
  its order.  With a numeric choice \<open>k\<close> the session has exactly \<open>min k N\<close> questions,
  each taken from the pool and none taken more often than the pool holds it, so a pool
  without repetition gives a session without repetition.
\<close>

theorem startQuiz_sampling:
  assumes "mset (random_sort (allQuestions s)) = mset (allQuestions s)"
  shows "(selectedQuestionCount s = ''all'' \<longrightarrow>
            questions (startQuiz random_sort now s) = allQuestions s)
       \<and> (selectedQuestionCount s \<noteq> ''all'' \<and> parseInt (selectedQuestionCount s) = Num k \<and> 0 \<le> k \<longrightarrow>
            int (length (questions (startQuiz random_sort now s))) = min k (int (length (allQuestions s)))
            \<and> mset (questions (startQuiz random_sort now s)) \<subseteq># mset (allQuestions s)
            \<and> (distinct (allQuestions s) \<longrightarrow> distinct (questions (startQuiz random_sort now s))))"
proof -
  have len: "length (random_sort (allQuestions s)) = length (allQuestions s)"
    using assms by (rule mset_eq_length)
  have dist: "distinct (allQuestions s) \<Longrightarrow> distinct (random_sort (allQuestions s))"
    using assms by (metis mset_eq_imp_distinct_iff)
  have sub: "mset (take n (random_sort (allQuestions s))) \<subseteq># mset (allQuestions s)" for n
    using mset_take_subset [of n "random_sort (allQuestions s)"] assms by simp
  show ?thesis
    using len dist sub
    by (auto simp: startQuiz_def Let_def slice0_def Math_min_def)
qed

theorem startQuiz_sampling_witness:
  "length (questions (startQuiz rev 0 configured)) = 5
   \<and> mset (questions (startQuiz rev 0 configured)) \<subseteq># mset tenQuestions
   \<and> distinct (questions (startQuiz rev 0 configured))
   \<and> questions (startQuiz rev 0 (configured\<lparr>selectedQuestionCount := ''all''\<rparr>)) = tenQuestions"
proof -
  have n: "length tenQuestions = 10" by (simp add: tenQuestions_def)
  have a: "allQuestions (configured\<lparr>selectedQuestionCount := ''all''\<rparr>) = tenQuestions"
    by (simp add: configured_fields)
  show ?thesis
    using startQuiz_sampling [of rev configured 0 5]
      startQuiz_sampling [of rev "configured\<lparr>selectedQuestionCount := ''all''\<rparr>" 0 5]
    by (simp add: configured_fields parseInt_5 distinct_tenQuestions n a)
qed

text \<open>
  Claim C10 at a concrete input.  When the \<^verbatim>\<open>options\<close> column holds the JSON string
  \<^verbatim>\<open>"42"\<close>, whose text parses to the number 42, \<^verbatim>\<open>parseOptions\<close> returns that number as
  it is: the parsed value is not checked to be an array, nor are its elements converted.
\<close>

theorem parseOptions_unchecked_parse:
  assumes "JSON_parse ''42'' = Some (JNumber 42)"
  shows "parseOptions JSON_parse String (JString ''42'') = JNumber 42
       \<and> \<not> is_string_list (parseOptions JSON_parse String (JString ''42''))"
  using assms by (simp add: parseOptions_def)

theorem parseOptions_unchecked_parse_witness:
  "parseOptions parseFortyTwo stringOnly (JString ''42'') = JNumber 42"
proof -
  have "parseFortyTwo ''42'' = Some (JNumber 42)" by (simp add: parseFortyTwo_def)
  then show ?thesis using parseOptions_unchecked_parse [of parseFortyTwo stringOnly] by simp
qed

subsection \<open>The timer\<close>

text \<open>
  Time is counted in firings of the one-second interval: the page keeps no deadline, only
  the number of seconds left, which \<^verbatim>\<open>startQuiz\<close> sets to the minutes chosen times 60.
\<close>

lemma runQuiz_snoc: "runQuiz (evs @ [e]) s = quizStep e (runQuiz evs s)"
  by (simp add: runQuiz_def)

lemma elapsed_snoc: "elapsed (evs @ [e]) = elapsed evs + (if isTick e then 1 else 0)"
  by (simp add: elapsed_def)

lemma elapsed_nonneg: "0 \<le> elapsed evs"
  by (simp add: elapsed_def)

lemma counting_select: "counting s1 r s \<Longrightarrow> counting s1 r (handleSelectAnswer q i s)"
  by (simp add: counting_def handleSelectAnswer_def)

lemma counting_goto: "counting s1 r s \<Longrightarrow> counting s1 r (s\<lparr>currentQuestionIndex := i\<rparr>)"
  by (simp add: counting_def)

lemma counting_tick:
  assumes "counting s1 r s" and "1 < r" and "r < 2 ^ 53"
  shows "counting s1 (r - 1) (oneSecond now s)"
proof -
  have "toDouble (r - 1) = Num (r - 1)"
    using assms(2,3) by (intro toDouble_exact) simp
  with assms(1,2) show ?thesis
    by (simp add: counting_def oneSecond_def intervalTick_def intervalRunning_def timerActive_def
        timerEffect_def countDown_def)
qed

lemma counting_last:
  assumes "counting s1 1 s"
  shows "oneSecond now s = handleSubmitQuiz now (s\<lparr>timeRemaining := Some (Num 0), timerExpired := True\<rparr>)"
proof -
  have "toDouble 0 = Num 0"
    using toDouble_exact [of 0] by simp
  with assms show ?thesis
    by (simp add: counting_def oneSecond_def intervalTick_def intervalRunning_def timerActive_def
        timerEffect_def countDown_def)
qed

lemma counting_run:
  assumes "counting s1 limit s1" and "limit < 2 ^ 53"
  shows "elapsed evs < limit \<Longrightarrow> counting s1 (limit - elapsed evs) (runQuiz evs s1)"
proof (induction evs rule: rev_induct)
  case Nil
  then show ?case using assms by (simp add: runQuiz_def elapsed_def)
next
  case (snoc e evs)
  have le: "elapsed evs \<le> elapsed (evs @ [e])" by (simp add: elapsed_snoc)
  with snoc.prems have "elapsed evs < limit" by linarith
  with snoc.IH have c: "counting s1 (limit - elapsed evs) (runQuiz evs s1)" by simp
  show ?case
  proof (cases e)
    case (Tick now)
    with snoc.prems have "1 < limit - elapsed evs" by (simp add: elapsed_snoc)
    moreover have "limit - elapsed evs < 2 ^ 53"
      using assms(2) elapsed_nonneg [of evs] by linarith
    ultimately have "counting s1 (limit - elapsed evs - 1) (oneSecond now (runQuiz evs s1))"
      using c by (intro counting_tick)
    moreover have "limit - elapsed evs - 1 = limit - (elapsed evs + 1)" by simp
    ultimately show ?thesis by (simp add: Tick runQuiz_snoc elapsed_snoc)
  next
    case (Select q i)
    then show ?thesis using c by (simp add: runQuiz_snoc elapsed_snoc counting_select)
  next
    case (Goto i)
    then show ?thesis using c by (simp add: runQuiz_snoc elapsed_snoc counting_goto)
  qed
qed

lemma idle_step:
  assumes "\<not> timerEnabled s" and "\<not> isSubmitted s" and "timeRemaining s = None"
  shows "\<not> timerEnabled (quizStep e s) \<and> \<not> isSubmitted (quizStep e s) \<and> timeRemaining (quizStep e s) = None
         \<and> quiz_attempts (quizStep e s) = quiz_attempts s"
  using assms
  by (cases e)
     (simp_all add: oneSecond_def intervalTick_def intervalRunning_def timerActive_def timerEffect_def
        handleSelectAnswer_def)

lemma idle_run:
  assumes "\<not> timerEnabled s" and "\<not> isSubmitted s" and "timeRemaining s = None"
  shows "\<not> timerEnabled (runQuiz evs s) \<and> \<not> isSubmitted (runQuiz evs s) \<and> timeRemaining (runQuiz evs s) = None
         \<and> quiz_attempts (runQuiz evs s) = quiz_attempts s"
proof (induction evs rule: rev_induct)
  case Nil
  then show ?case using assms by (simp add: runQuiz_def)
next
  case (snoc e evs)
  then show ?case using idle_step [of "runQuiz evs s" e] by (simp add: runQuiz_snoc)
qed

lemma beginQuiz_enabled:
  assumes "timerEnabled s" and "parseInt (timerMinutes s) = Num m" and "0 < m" and "m * 60 < 2 ^ 53"
    and "\<not> isSubmitted s"
  shows "beginQuiz random_sort now s =
           (startQuiz random_sort now s)"
    and "counting (beginQuiz random_sort now s) (m * 60) (beginQuiz random_sort now s)"
    and "startTime (beginQuiz random_sort now s) = now"
proof -
  have t: "toDouble (m * 60) = Num (m * 60)"
    using assms(3,4) by (intro toDouble_exact) simp
  show "beginQuiz random_sort now s = (startQuiz random_sort now s)"
    and "counting (beginQuiz random_sort now s) (m * 60) (beginQuiz random_sort now s)"
    and "startTime (beginQuiz random_sort now s) = now"
    using assms t
    by (simp_all add: beginQuiz_def startQuiz_def timerEffect_def timerActive_def times60_def Let_def counting_def)
qed

lemma beginQuiz_disabled:
  assumes "\<not> timerEnabled s" and "timeRemaining s = None" and "\<not> isSubmitted s"
  shows "\<not> timerEnabled (beginQuiz random_sort now s)" "\<not> isSubmitted (beginQuiz random_sort now s)"
    "timeRemaining (beginQuiz random_sort now s) = None"
  using assms
  by (simp_all add: beginQuiz_def startQuiz_def timerEffect_def timerActive_def Let_def)

lemma startQuiz_keeps2:
  "quiz_attempts (startQuiz random_sort now s) = quiz_attempts s"
  "selectedAnswers (startQuiz random_sort now s) = selectedAnswers s"
  by (simp_all add: startQuiz_def Let_def)

lemma elapsed_replicate: "elapsed (replicate k (Tick t)) = int k"
  by (simp add: elapsed_def)

lemma elapsed_ticksEvery: "elapsed (ticksEvery d t n) = int n"
  by (simp add: elapsed_def ticksEvery_def filter_map comp_def del: upt_Suc)

lemma ticksEvery_Suc: "ticksEvery d t (Suc n) = ticksEvery d t n @ [Tick (t + d * int (Suc n))]"
  by (simp add: ticksEvery_def)

text \<open>
  Firings that are spaced as the interval demands: the \<open>n\<close>-th of them reads the clock no
  earlier than \<open>n\<close> seconds after the start.
\<close>

lemma spaced_last:
  "spaced t (evs @ [Tick now]) \<Longrightarrow> t + 1000 * (elapsed evs + 1) \<le> now"
proof (induction evs arbitrary: t)
  case Nil
  then show ?case by (simp add: elapsed_def)
next
  case (Cons e evs)
  show ?case
  proof (cases e)
    case (Tick u)
    with Cons.prems have "t + 1000 \<le> u" "spaced u (evs @ [Tick now])" by simp_all
    with Cons.IH [of u] show ?thesis by (simp add: Tick elapsed_def)
  next
    case (Select q i)
    with Cons.prems Cons.IH [of t] show ?thesis by (simp add: elapsed_def)
  next
    case (Goto i)
    with Cons.prems Cons.IH [of t] show ?thesis by (simp add: elapsed_def)
  qed
qed

lemma configured_session:
  "\<not> isSubmitted configured" "user configured = Some ''u1''" "quiz configured = Some demoQuiz"
  "timerEnabled configured" "timerMinutes configured = ''1''" "timeRemaining configured = None"
  unfolding configured_def fetch_demo by (simp_all add: mounted_def)

lemma parseInt_1: "parseInt ''1'' = Num 1"
  using toDouble_exact [of 1]
  by (simp add: parseInt_def is_space_def is_digit_def digits_value_def)

lemma toDouble_60: "toDouble 60 = Num 60"
  using toDouble_exact [of 60] by simp

lemma configured_questions:
  "questions (beginQuiz rev 0 configured) \<noteq> []"
  "questions (beginQuiz rev 0 (configured\<lparr>timerEnabled := False\<rparr>)) \<noteq> []"
  by (simp_all add: beginQuiz_def timerEffect_def timerActive_def startQuiz_def Let_def
      configured_fields configured_session parseInt_5 parseInt_1 times60_def toDouble_60 slice0_def
      Math_min_def tenQuestions_def)

lemma configured_attempts: "quiz_attempts configured = []"
  unfolding configured_def fetch_demo by (simp add: mounted_def)

lemma submit_timerExpired: "timerExpired (handleSubmitQuiz now s) = timerExpired s"
  by (simp add: handleSubmitQuiz_def updatePoints_def Let_def split: option.splits prod.splits)

lemma round_seconds: "Math_round (js_div 60000 1000) = 60" "Math_round (js_div 120000 1000) = 120"
  by code_simp+

text \<open>
  What the countdown does, whatever the clock says.  A quiz started at \<open>t0\<close> with the timer
  on and \<open>m\<close> minutes has \<open>m * 60\<close> seconds left.  Whatever the student selects or visits
  meanwhile, as long as fewer than \<open>m * 60\<close> firings have occurred the quiz is not
  submitted and no attempt is stored; the firing that completes \<open>m * 60\<close> submits it, with
  the score computed from the answers recorded at that moment and the time taken read off
  the clock.
\<close>

lemma countdown:
  assumes "\<not> isSubmitted s0" and "user s0 = Some uid" and "quiz s0 = Some qz"
    and "questions (beginQuiz random_sort t0 s0) \<noteq> []"
    and "timerEnabled s0" and "parseInt (timerMinutes s0) = Num m" and "0 < m" and "m * 60 < 2 ^ 53"
  shows "startTime (beginQuiz random_sort t0 s0) = t0"
    and "timeRemaining (beginQuiz random_sort t0 s0) = Some (Num (m * 60))"
    and "elapsed evs < m * 60 \<Longrightarrow>
           \<not> isSubmitted (runQuiz evs (beginQuiz random_sort t0 s0))
         \<and> timeRemaining (runQuiz evs (beginQuiz random_sort t0 s0)) = Some (Num (m * 60 - elapsed evs))
         \<and> quiz_attempts (runQuiz evs (beginQuiz random_sort t0 s0)) = quiz_attempts s0"
    and "elapsed evs = m * 60 - 1 \<Longrightarrow>
           isSubmitted (runQuiz (evs @ [Tick now]) (beginQuiz random_sort t0 s0))
         \<and> timerExpired (runQuiz (evs @ [Tick now]) (beginQuiz random_sort t0 s0))
         \<and> score (runQuiz (evs @ [Tick now]) (beginQuiz random_sort t0 s0))
             = percentage_of (runQuiz evs (beginQuiz random_sort t0 s0))
         \<and> quiz_attempts (runQuiz (evs @ [Tick now]) (beginQuiz random_sort t0 s0))
             = quiz_attempts s0 @
               [\<lparr>user_id = uid, quiz_id = quiz_ident qz,
                 attempt_score = percentage_of (runQuiz evs (beginQuiz random_sort t0 s0)),
                 correct_answers = correctCount_of (runQuiz evs (beginQuiz random_sort t0 s0)),
                 total_questions = int (length (questions (beginQuiz random_sort t0 s0))),
                 time_taken_seconds = Math_round (js_div (of_int (now - t0)) 1000)\<rparr>]"
proof -
  let ?s1 = "beginQuiz random_sort t0 s0"
  have eq: "?s1 = startQuiz random_sort t0 s0"
    by (rule beginQuiz_enabled(1) [OF assms(5-8) assms(1)])
  have c0: "counting ?s1 (m * 60) ?s1"
    by (rule beginQuiz_enabled(2) [OF assms(5-8) assms(1)])
  show st: "startTime ?s1 = t0"
    by (rule beginQuiz_enabled(3) [OF assms(5-8) assms(1)])
  have u: "user ?s1 = Some uid" "quiz ?s1 = Some qz" "quiz_attempts ?s1 = quiz_attempts s0"
    by (simp_all add: eq startQuiz_keeps startQuiz_keeps2 assms)
  show "timeRemaining ?s1 = Some (Num (m * 60))"
    using c0 by (simp add: counting_def)
  show "\<not> isSubmitted (runQuiz evs ?s1)
         \<and> timeRemaining (runQuiz evs ?s1) = Some (Num (m * 60 - elapsed evs))
         \<and> quiz_attempts (runQuiz evs ?s1) = quiz_attempts s0"
    if "elapsed evs < m * 60"
    using counting_run [OF c0 assms(8) that] u by (simp add: counting_def)
  show "isSubmitted (runQuiz (evs @ [Tick now]) ?s1)
         \<and> timerExpired (runQuiz (evs @ [Tick now]) ?s1)
         \<and> score (runQuiz (evs @ [Tick now]) ?s1) = percentage_of (runQuiz evs ?s1)
         \<and> quiz_attempts (runQuiz (evs @ [Tick now]) ?s1)
             = quiz_attempts s0 @
               [\<lparr>user_id = uid, quiz_id = quiz_ident qz,
                 attempt_score = percentage_of (runQuiz evs ?s1),
                 correct_answers = correctCount_of (runQuiz evs ?s1),
                 total_questions = int (length (questions ?s1)),
                 time_taken_seconds = Math_round (js_div (of_int (now - t0)) 1000)\<rparr>]"
    if last: "elapsed evs = m * 60 - 1"
  proof -
    let ?s = "runQuiz evs ?s1"
    let ?t = "?s\<lparr>timeRemaining := Some (Num 0), timerExpired := True\<rparr>"
    from last have "elapsed evs < m * 60" by simp
    from counting_run [OF c0 assms(8) this] last have cs: "counting ?s1 1 ?s" by simp
    have step: "runQuiz (evs @ [Tick now]) ?s1 = handleSubmitQuiz now ?t"
      using counting_last [OF cs] by (simp add: runQuiz_snoc)
    have t: "user ?t = Some uid" "quiz ?t = Some qz" "questions ?t \<noteq> []"
      "quiz_attempts ?t = quiz_attempts s0" "questions ?t = questions ?s1"
      using cs u assms(4) by (simp_all add: counting_def)
    have p: "percentage_of ?t = percentage_of ?s" "correctCount_of ?t = correctCount_of ?s"
      by (simp_all add: percentage_of_def correctCount_of_def)
    have k: "startTime ?t = t0" "timerExpired (handleSubmitQuiz now ?t)"
      using cs st by (simp_all add: counting_def submit_timerExpired)
    show ?thesis
      unfolding step
      using submit_score [OF t(1-3), of now] submit_attempts [OF t(1-3), of now]
      by (simp add: p t(4,5) k)
  qed
qed

text \<open>
  Firings that are spaced as the interval demands and all read the clock before \<open>d\<close>:
  their number, in seconds after the start, lies before \<open>d\<close> as well.
\<close>

lemma spaced_before:
  "spaced t evs \<Longrightarrow> before d evs \<Longrightarrow> 0 < elapsed evs \<Longrightarrow> t + 1000 * elapsed evs < d"
proof (induction evs arbitrary: t)
  case Nil
  then show ?case by (simp add: elapsed_def)
next
  case (Cons e evs)
  show ?case
  proof (cases e)
    case (Tick u)
    with Cons.prems have a: "t + 1000 \<le> u" "spaced u evs" "u < d" "before d evs"
      by (simp_all add: before_def)
    have el: "elapsed (e # evs) = elapsed evs + 1" by (simp add: Tick elapsed_def)
    show ?thesis
    proof (cases "0 < elapsed evs")
      case True
      with Cons.IH [OF a(2) a(4)] a(1) show ?thesis by (simp add: el)
    next
      case False
      with elapsed_nonneg [of evs] have "elapsed evs = 0" by simp
      with a(1,3) show ?thesis by (simp add: el)
    qed
  next
    case (Select q i)
    with Cons.prems Cons.IH [of t] show ?thesis by (simp add: elapsed_def before_def)
  next
    case (Goto i)
    with Cons.prems Cons.IH [of t] show ?thesis by (simp add: elapsed_def before_def)
  qed
qed

lemma spaced_ticks:
  "spaced 0 (ticksEvery 1000 0 59 @ [Tick 60000])"
  "before 60000 (ticksEvery 1000 0 59)"
  by code_simp+


text \<open>
  Claim C9, as the page implements it.  The page stores the start time but no deadline: a
  quiz started at \<open>t0\<close> with the timer on and \<open>m\<close> minutes counts \<open>m * 60\<close> down by one
  at every firing of its interval.  Whatever the student selects or visits meanwhile, the
  quiz is not submitted before the firing that completes \<open>m * 60\<close>, and that firing submits
  it, late or not: the score and the stored attempt are computed from the answers recorded
  at that moment, and the time taken is read off the clock.  When the firings are spaced as
  the interval demands, that firing reads the clock at the deadline or later, and a quiz
  whose firings all read the clock before the deadline is not submitted.  A quiz started with
  the timer off has no time left to count and is never submitted by the passing of time.
\<close>

theorem timer_countdown:
  assumes "\<not> isSubmitted s0" and "user s0 = Some uid" and "quiz s0 = Some qz"
    and "questions (beginQuiz random_sort t0 s0) \<noteq> []"
  shows "(timerEnabled s0 \<and> parseInt (timerMinutes s0) = Num m \<and> 0 < m \<and> m * 60 < 2 ^ 53 \<longrightarrow>
            startTime (beginQuiz random_sort t0 s0) = t0
          \<and> timeRemaining (beginQuiz random_sort t0 s0) = Some (Num (m * 60))
          \<and> (elapsed evs < m * 60 \<longrightarrow>
                \<not> isSubmitted (runQuiz evs (beginQuiz random_sort t0 s0))
              \<and> timeRemaining (runQuiz evs (beginQuiz random_sort t0 s0)) = Some (Num (m * 60 - elapsed evs))
              \<and> quiz_attempts (runQuiz evs (beginQuiz random_sort t0 s0)) = quiz_attempts s0)
          \<and> (elapsed evs = m * 60 - 1 \<longrightarrow>
                isSubmitted (runQuiz (evs @ [Tick now]) (beginQuiz random_sort t0 s0))
              \<and> timerExpired (runQuiz (evs @ [Tick now]) (beginQuiz random_sort t0 s0))
              \<and> score (runQuiz (evs @ [Tick now]) (beginQuiz random_sort t0 s0))
                  = percentage_of (runQuiz evs (beginQuiz random_sort t0 s0))
              \<and> quiz_attempts (runQuiz (evs @ [Tick now]) (beginQuiz random_sort t0 s0))
                  = quiz_attempts s0 @
                    [\<lparr>user_id = uid, quiz_id = quiz_ident qz,
                      attempt_score = percentage_of (runQuiz evs (beginQuiz random_sort t0 s0)),
                      correct_answers = correctCount_of (runQuiz evs (beginQuiz random_sort t0 s0)),
                      total_questions = int (length (questions (beginQuiz random_sort t0 s0))),
                      time_taken_seconds = Math_round (js_div (of_int (now - t0)) 1000)\<rparr>]
              \<and> (spaced t0 (evs @ [Tick now]) \<longrightarrow> spec_deadline t0 m \<le> now))
          \<and> (spaced t0 evs \<and> before (spec_deadline t0 m) evs \<longrightarrow>
                \<not> isSubmitted (runQuiz evs (beginQuiz random_sort t0 s0))
              \<and> quiz_attempts (runQuiz evs (beginQuiz random_sort t0 s0)) = quiz_attempts s0))
       \<and> (\<not> timerEnabled s0 \<and> timeRemaining s0 = None \<longrightarrow>
            timeRemaining (runQuiz evs (beginQuiz random_sort t0 s0)) = None
          \<and> \<not> isSubmitted (runQuiz evs (beginQuiz random_sort t0 s0))
          \<and> quiz_attempts (runQuiz evs (beginQuiz random_sort t0 s0)) = quiz_attempts s0)"
proof -
  let ?s1 = "beginQuiz random_sort t0 s0"
  have on: "startTime ?s1 = t0
          \<and> timeRemaining ?s1 = Some (Num (m * 60))
          \<and> (elapsed evs < m * 60 \<longrightarrow>
                \<not> isSubmitted (runQuiz evs ?s1)
              \<and> timeRemaining (runQuiz evs ?s1) = Some (Num (m * 60 - elapsed evs))
              \<and> quiz_attempts (runQuiz evs ?s1) = quiz_attempts s0)
          \<and> (elapsed evs = m * 60 - 1 \<longrightarrow>
                isSubmitted (runQuiz (evs @ [Tick now]) ?s1)
              \<and> timerExpired (runQuiz (evs @ [Tick now]) ?s1)
              \<and> score (runQuiz (evs @ [Tick now]) ?s1) = percentage_of (runQuiz evs ?s1)
              \<and> quiz_attempts (runQuiz (evs @ [Tick now]) ?s1)
                  = quiz_attempts s0 @
                    [\<lparr>user_id = uid, quiz_id = quiz_ident qz,
                      attempt_score = percentage_of (runQuiz evs ?s1),
                      correct_answers = correctCount_of (runQuiz evs ?s1),
                      total_questions = int (length (questions ?s1)),
                      time_taken_seconds = Math_round (js_div (of_int (now - t0)) 1000)\<rparr>]
              \<and> (spaced t0 (evs @ [Tick now]) \<longrightarrow> spec_deadline t0 m \<le> now))
          \<and> (spaced t0 evs \<and> before (spec_deadline t0 m) evs \<longrightarrow>
                \<not> isSubmitted (runQuiz evs ?s1)
              \<and> quiz_attempts (runQuiz evs ?s1) = quiz_attempts s0)"
    if en: "timerEnabled s0" and pm: "parseInt (timerMinutes s0) = Num m" and pos: "0 < m"
      and small: "m * 60 < 2 ^ 53"
  proof -
    note cd = countdown [OF assms en pm pos small]
    have late: "spec_deadline t0 m \<le> now"
      if "elapsed evs = m * 60 - 1" "spaced t0 (evs @ [Tick now])"
      using spaced_last [OF that(2)] that(1) by (simp add: spec_deadline_def)
    have early: "elapsed evs < m * 60"
      if "spaced t0 evs" "before (spec_deadline t0 m) evs"
    proof (cases "0 < elapsed evs")
      case True
      from spaced_before [OF that True] show ?thesis by (simp add: spec_deadline_def)
    next
      case False
      with pos show ?thesis by simp
    qed
    show ?thesis
      using cd(1) cd(2) cd(3) [of evs] cd(4) [of evs now] late early by blast
  qed
  have off: "timeRemaining (runQuiz evs ?s1) = None \<and> \<not> isSubmitted (runQuiz evs ?s1)
              \<and> quiz_attempts (runQuiz evs ?s1) = quiz_attempts s0"
    if dis: "\<not> timerEnabled s0" and none: "timeRemaining s0 = None"
  proof -
    have q: "quiz_attempts ?s1 = quiz_attempts s0"
      using dis by (simp add: beginQuiz_def timerEffect_def timerActive_def startQuiz_def Let_def)
    have d: "\<not> timerEnabled ?s1" "\<not> isSubmitted ?s1" "timeRemaining ?s1 = None"
      by (rule beginQuiz_disabled [OF dis none assms(1)])+
    show ?thesis
      using idle_run [OF d, of evs] q by simp
  qed
  show ?thesis using on off by blast
qed

theorem timer_countdown_witness:
  "spaced 0 (ticksEvery 1000 0 59 @ [Tick 60000])
   \<and> before (spec_deadline 0 1) (ticksEvery 1000 0 59)
   \<and> \<not> isSubmitted (runQuiz (ticksEvery 1000 0 59) (beginQuiz rev 0 configured))
   \<and> timeRemaining (runQuiz (ticksEvery 1000 0 59) (beginQuiz rev 0 configured)) = Some (Num 1)
   \<and> isSubmitted (runQuiz (ticksEvery 1000 0 59 @ [Tick 60000]) (beginQuiz rev 0 configured))
   \<and> map time_taken_seconds
        (quiz_attempts (runQuiz (ticksEvery 1000 0 59 @ [Tick 60000]) (beginQuiz rev 0 configured))) = [60]
   \<and> spec_deadline 0 1 \<le> 60000
   \<and> \<not> isSubmitted (runQuiz (ticksEvery 1000 0 100) (beginQuiz rev 0 (configured\<lparr>timerEnabled := False\<rparr>)))"
  using timer_countdown [OF configured_session(1-3) configured_questions(1), of 1 "ticksEvery 1000 0 59" 60000]
    timer_countdown [of "configured\<lparr>timerEnabled := False\<rparr>" "''u1''" demoQuiz rev 0 1
      "ticksEvery 1000 0 100" 0]
    configured_questions(2) spaced_ticks configured_attempts
  by (simp add: configured_session parseInt_1 elapsed_ticksEvery round_seconds spec_deadline_def)


text \<open>
  Claim C9 as worded fails where the firings are late.  A one-minute quiz starts at the
  reading 0, so the deadline of the specification is the reading 60000.  The interval fires
  every two seconds (a browser delays the timers of a page in the background).  At the 59th
  firing the clock reads 118000, well past the deadline, and the quiz is not submitted; it is
  submitted at the 60th firing, at the reading 120000, and the attempt records 120 seconds.
\<close>

theorem timer_late_counterexample:
  "startTime (beginQuiz rev 0 configured) = 0
   \<and> spec_deadline (startTime (beginQuiz rev 0 configured)) 1 = 60000
   \<and> spaced 0 (ticksEvery 2000 0 58 @ [Tick 118000])
   \<and> \<not> isSubmitted (runQuiz (ticksEvery 2000 0 58 @ [Tick 118000]) (beginQuiz rev 0 configured))
   \<and> quiz_attempts (runQuiz (ticksEvery 2000 0 58 @ [Tick 118000]) (beginQuiz rev 0 configured)) = []
   \<and> isSubmitted (runQuiz (ticksEvery 2000 0 59 @ [Tick 120000]) (beginQuiz rev 0 configured))
   \<and> map time_taken_seconds
        (quiz_attempts (runQuiz (ticksEvery 2000 0 59 @ [Tick 120000]) (beginQuiz rev 0 configured))) = [120]"
proof -
  have p: "parseInt (timerMinutes configured) = Num 1"
    by (simp add: configured_session parseInt_1)
  have m: "(1::int) * 60 < 2 ^ 53" "(0::int) < 1" by simp_all
  note cd = countdown [OF configured_session(1-3) configured_questions(1) configured_session(4) p m(2) m(1)]
  have s: "spaced 0 (ticksEvery 2000 0 58 @ [Tick 118000])" by code_simp
  have a: "elapsed (ticksEvery 2000 0 58 @ [Tick 118000]) < 1 * 60"
    by (simp add: elapsed_snoc elapsed_ticksEvery)
  have b: "elapsed (ticksEvery 2000 0 59) = 1 * 60 - 1"
    by (simp add: elapsed_ticksEvery)
  show ?thesis
    using cd(1) cd(3) [OF a] cd(4) [OF b, of 120000] s configured_attempts
    by (simp add: spec_deadline_def round_seconds)
qed
subsection \<open>The score\<close>

lemma round_half_up_7_10: "round_half_up 7 10 = 70"
  by code_simp

text \<open>
  Claim C4, as the pages implement it.  The loop counts exactly the questions whose entry
  in the answer map is the index of the correct option, and adds up their points; a question
  without an entry is not counted.  The exam page scores 0 for an empty question list and
  otherwise \<^verbatim>\<open>Math.round((correctCount / questions.length) * 100)\<close>; the quiz page leaves
  an empty list unsubmitted and otherwise computes the same expression.  Evaluated in
  binary64 arithmetic, that expression is the exact \<open>100 * c / n\<close> rounded half up
  whenever \<open>100 * c / n\<close> is not half-way between two integers, and in any case that value
  or the integer below it (for lists of fewer than \<open>2^44\<close> questions).
\<close>

theorem score_computation:
  "scoreLoop qs as (0, 0) =
     (int (length (filter (answeredCorrectly as) qs)),
      sum_list (map points (filter (answeredCorrectly as) qs)))
   \<and> (as (qid q) = None \<longrightarrow> \<not> answeredCorrectly as q)
   \<and> (answeredCorrectly as q \<longleftrightarrow> as (qid q) = Some (correct_answer q))
   \<and> examScore r =
       (if exam_questions r = [] then 0
        else scorePercentage (int (length (filter (answeredCorrectly (answers r)) (exam_questions r))))
               (int (length (exam_questions r))))
   \<and> (questions s = [] \<longrightarrow> handleSubmitQuiz now s = s)
   \<and> (user s = Some uid \<and> quiz s = Some qz \<and> questions s \<noteq> [] \<longrightarrow>
        score (handleSubmitQuiz now s)
          = scorePercentage (int (length (filter (answeredCorrectly (selectedAnswers s)) (questions s))))
              (int (length (questions s))))
   \<and> (0 \<le> c \<and> c \<le> n \<and> 0 < n \<and> n < 2 ^ 44 \<longrightarrow>
        round_half_up c n - 1 \<le> scorePercentage c n
        \<and> scorePercentage c n \<le> round_half_up c n
        \<and> (\<not> 2 * n dvd 200 * c + n \<longrightarrow> scorePercentage c n = round_half_up c n))"
proof -
  have a: "scoreLoop qs as (0, 0) =
     (int (length (filter (answeredCorrectly as) qs)),
      sum_list (map points (filter (answeredCorrectly as) qs)))"
    by (simp add: scoreLoop_filter)
  have b: "answeredCorrectly as q \<longleftrightarrow> as (qid q) = Some (correct_answer q)"
    by (simp add: answeredCorrectly_def)
  have c: "examScore r =
       (if exam_questions r = [] then 0
        else scorePercentage (int (length (filter (answeredCorrectly (answers r)) (exam_questions r))))
               (int (length (exam_questions r))))"
    by (simp add: examScore_def scoreLoop_filter)
  have d: "questions s = [] \<longrightarrow> handleSubmitQuiz now s = s"
    by (simp add: handleSubmitQuiz_def split: option.splits)
  have e: "user s = Some uid \<and> quiz s = Some qz \<and> questions s \<noteq> [] \<longrightarrow>
        score (handleSubmitQuiz now s)
          = scorePercentage (int (length (filter (answeredCorrectly (selectedAnswers s)) (questions s))))
              (int (length (questions s)))"
    using submit_score(1) [of s uid qz now] by (simp add: percentage_of_def correctCount_of_def)
  have f: "0 \<le> c \<and> c \<le> n \<and> 0 < n \<and> n < 2 ^ 44 \<longrightarrow>
        round_half_up c n - 1 \<le> scorePercentage c n
        \<and> scorePercentage c n \<le> round_half_up c n
        \<and> (\<not> 2 * n dvd 200 * c + n \<longrightarrow> scorePercentage c n = round_half_up c n)"
    using percentage_bounds [of c n] by blast
  show ?thesis using a b c d e f by simp
qed

theorem score_computation_witness:
  "scorePercentage 7 10 = 70
   \<and> score (handleSubmitQuiz 0 (inProgress 7)) = scorePercentage (correctCount_of (inProgress 7)) 10
   \<and> handleSubmitQuiz 0 mounted = mounted
   \<and> \<not> answeredCorrectly Map.empty (quizQ ''a'')"
proof -
  have m: "questions mounted = []" by (simp add: mounted_def)
  have l: "int (length (questions (inProgress 7))) = 10"
    by (simp add: inProgress_def tenQuestions_def)
  have nt: "\<not> (2 * 10 :: int) dvd 200 * 7 + 10" by simp
  show ?thesis
    using score_computation [of "questions (inProgress 7)" Map.empty "quizQ ''a''" twentyThreeRight
        mounted 0 "''u1''" demoQuiz 7 10]
      score_computation [of "questions (inProgress 7)" Map.empty "quizQ ''a''" twentyThreeRight
        "inProgress 7" 0 "''u1''" demoQuiz 7 10]
      nt
    by (simp add: m l inProgress_fields round_half_up_7_10 correctCount_of_def)
qed

text \<open>
  C4 as stated fails at a tie: with 23 of 40 questions right the exact value is 57.5, which
  rounds half up to 58, but the quotient 23/40 is rounded down in binary64, the product with
  100 falls just below 57.5, and the page reports 57.
\<close>

theorem percentage_tie_counterexample:
  "scorePercentage 23 40 = 57 \<and> round_half_up 23 40 = 58 \<and> examScore twentyThreeRight = 57"
proof -
  have a: "scorePercentage 23 40 = 57" by code_simp
  have b: "round_half_up 23 40 = 58" by (simp add: round_half_up_def)
  have c: "examScore twentyThreeRight = 57" by code_simp
  show ?thesis using a b c by simp
qed

section \<open>Properties of the secure exam page\<close>

text \<open>
  The small exam in progress is what the page reaches from the loaded exam when the student
  starts it, fullscreen is granted and the session is stored, and the student moves on to
  the second question.
\<close>

lemma freshWorld_reached:
  "clickNext (clickStart True (Some (''s1'', ''t0'')) examLoaded) = freshWorld"
  by (simp add: clickNext_def clickStart_def startExam_def examLoaded_def visibilityEffect_def
      fullscreenEffect_def freshWorld_def startedView_def freshSession_def freshRow_def
      defaultRow_def Let_def)

text \<open>
  What one call of the handler does.  A render \<open>r\<close> that holds the session \<open>es\<close> counts
  one more violation of the kind \<open>k\<close> than \<open>es\<close> holds, and writes the flag from that one
  number: stored and shown, the flag is set exactly when the number is at least 3, and the
  automatic submission is scheduled exactly then.  The counter of the other kind is neither
  read nor added.
\<close>

lemma handler_flag:
  assumes "examSession r = Some es" and "exam_sessions w (session_ident es) = Some row"
  shows "rowFlagged (handleSecurityViolation r k w) (session_ident es)
           = Some (3 \<le> or_zero (counter k es) + 1)"
    and "flagged (handleSecurityViolation r k w) = (3 \<le> or_zero (counter k es) + 1)"
    and "pendingTimeouts (handleSecurityViolation r k w)
           = pendingTimeouts w @ (if 3 \<le> or_zero (counter k es) + 1 then [r] else [])"
  using assms
  by (simp_all add: handleSecurityViolation_def rowFlagged_def flagged_def Let_def)

lemma handler_flag_example:
  "rowFlagged (handleSecurityViolation startedView fullscreen_exit freshWorld) ''s1'' = Some False
   \<and> \<not> flagged (handleSecurityViolation startedView fullscreen_exit freshWorld)"
  using handler_flag(1,2) [of startedView freshSession freshWorld freshRow fullscreen_exit]
  by (simp add: startedView_def freshWorld_def freshSession_def counter_def or_zero_def)

text \<open>
  Tab switches alone.  The visibility listener is installed anew whenever the session
  changes, so it always counts from the session on the page: after \<open>n\<close> tab switches in an
  exam just started, the counter stands at \<open>n\<close>, and the session is flagged exactly when
  \<open>n\<close> is at least 3.
\<close>

lemma upToDate_hidden:
  assumes "upToDate w"
  shows "upToDate (visibilityHidden w)"
    and "count_of tab_switch (visibilityHidden w) = count_of tab_switch w + 1"
    and "flagged (visibilityHidden w) = (3 \<le> count_of tab_switch w + 1)"
proof -
  from assms obtain r es where r: "visibilityListener w = Some r" "examSession r = Some es"
    "examSession (view w) = Some es" "examStarted (view w)"
    by (cases "visibilityListener w"; cases "examSession (view w)") (auto simp: upToDate_def)
  show "upToDate (visibilityHidden w)"
    using r
    by (simp add: upToDate_def visibilityHidden_def violationFrom_def visibilityEffect_def
        handleSecurityViolation_def Let_def split: option.splits)
  show "count_of tab_switch (visibilityHidden w) = count_of tab_switch w + 1"
    using r
    by (simp add: visibilityHidden_def violationFrom_def visibilityEffect_def
        handleSecurityViolation_def count_of_def counter_def or_zero_def Let_def
        split: option.splits)
  show "flagged (visibilityHidden w) = (3 \<le> count_of tab_switch w + 1)"
    using r
    by (simp add: visibilityHidden_def violationFrom_def visibilityEffect_def
        handleSecurityViolation_def count_of_def counter_def flagged_def Let_def
        split: option.splits)
qed

lemma recordAll_snoc: "recordAll (types @ [k]) w = recordViolation k (recordAll types w)"
  by (simp add: recordAll_def)

lemma tab_switches_counted:
  assumes "upToDate w"
  shows "upToDate (recordAll (replicate n tab_switch) w)
       \<and> count_of tab_switch (recordAll (replicate n tab_switch) w) = count_of tab_switch w + int n"
proof (induction n)
  case 0
  then show ?case using assms by (simp add: recordAll_def)
next
  case (Suc n)
  have "recordAll (replicate (Suc n) tab_switch) w
          = visibilityHidden (recordAll (replicate n tab_switch) w)"
    using recordAll_snoc [of "replicate n tab_switch" tab_switch w]
    by (simp add: replicate_append_same recordViolation_def)
  with Suc upToDate_hidden(1,2) [of "recordAll (replicate n tab_switch) w"] show ?case by simp
qed

lemma freshWorld_upToDate: "upToDate freshWorld" "count_of tab_switch freshWorld = 0"
  by (simp_all add: upToDate_def freshWorld_def startedView_def count_of_def counter_def
      or_zero_def freshSession_def)

lemma tab_switches_flag:
  "flagged (recordAll (replicate (Suc n) tab_switch) freshWorld) \<longleftrightarrow> 3 \<le> Suc n"
proof -
  have "recordAll (replicate (Suc n) tab_switch) freshWorld
          = visibilityHidden (recordAll (replicate n tab_switch) freshWorld)"
    using recordAll_snoc [of "replicate n tab_switch" tab_switch freshWorld]
    by (simp add: replicate_append_same recordViolation_def)
  moreover have "upToDate (recordAll (replicate n tab_switch) freshWorld)"
    "count_of tab_switch (recordAll (replicate n tab_switch) freshWorld) = int n"
    using tab_switches_counted [OF freshWorld_upToDate(1), of n] freshWorld_upToDate(2) by simp_all
  ultimately show ?thesis
    using upToDate_hidden(3) [of "recordAll (replicate n tab_switch) freshWorld"] by simp
qed

text \<open>
  Two violations of whatever kinds, in an exam just started, set no flag and schedule no
  submission.
\<close>

lemma two_violations_no_flag:
  "\<not> flagged (recordAll [j, k] freshWorld)
   \<and> rowFlagged (recordAll [j, k] freshWorld) ''s1'' = Some False
   \<and> pendingTimeouts (recordAll [j, k] freshWorld) = []"
  by (cases j; cases k)
     (simp_all add: recordAll_def recordViolation_def visibilityHidden_def fullscreenChange_def
        violationFrom_def visibilityEffect_def fullscreenEffect_def handleSecurityViolation_def
        flagged_def rowFlagged_def freshWorld_def startedView_def freshSession_def freshRow_def
        counter_def or_zero_def Let_def)


text \<open>
  Claim C1 at a concrete run.  The start screen announces that three security violations
  flag and end the exam.  The student switches tabs twice and then leaves fullscreen: three
  violations are recorded, and the stored row counts 2 and 1.  The handler compares 3 with
  the counter of one kind only, so the row is stored unflagged, the session on the page is
  not flagged and no submission is scheduled.  The fullscreen listener is moreover still the
  one of the render in which the exam started: it counts from the session as it was then and
  puts a session with no tab switch and one fullscreen exit on the page.
\<close>

theorem mixed_violations_not_flagged:
  "rowTotal (recordAll [tab_switch, tab_switch, fullscreen_exit] freshWorld) ''s1'' = 3
   \<and> rowFlagged (recordAll [tab_switch, tab_switch, fullscreen_exit] freshWorld) ''s1'' = Some False
   \<and> \<not> flagged (recordAll [tab_switch, tab_switch, fullscreen_exit] freshWorld)
   \<and> pendingTimeouts (recordAll [tab_switch, tab_switch, fullscreen_exit] freshWorld) = []
   \<and> exam_route (recordAll [tab_switch, tab_switch, fullscreen_exit] freshWorld) = None
   \<and> count_of tab_switch (recordAll [tab_switch, tab_switch, fullscreen_exit] freshWorld) = 0
   \<and> count_of fullscreen_exit (recordAll [tab_switch, tab_switch, fullscreen_exit] freshWorld) = 1"
  by (simp add: recordAll_def recordViolation_def visibilityHidden_def fullscreenChange_def
      violationFrom_def visibilityEffect_def fullscreenEffect_def handleSecurityViolation_def
      flagged_def rowFlagged_def rowTotal_def count_of_def freshWorld_def startedView_def
      freshSession_def freshRow_def counter_def or_zero_def Let_def)


text \<open>
  Claim C2 at a concrete run.  After three tab switches the session is flagged, on the page
  and in the stored row.  The student then leaves fullscreen: the handler writes the flag
  anew from the count of fullscreen exits alone, which is 1, so the stored row, which now
  counts four violations, is no longer flagged and has no flag reason, and the session on
  the page is no longer flagged either.
\<close>

theorem flag_cleared_by_other_kind:
  "flagged (recordAll [tab_switch, tab_switch, tab_switch] freshWorld)
   \<and> rowFlagged (recordAll [tab_switch, tab_switch, tab_switch] freshWorld) ''s1'' = Some True
   \<and> rowTotal (recordAll [tab_switch, tab_switch, tab_switch] freshWorld) ''s1'' = 3
   \<and> rowTotal (recordAll [tab_switch, tab_switch, tab_switch, fullscreen_exit] freshWorld) ''s1'' = 4
   \<and> rowFlagged (recordAll [tab_switch, tab_switch, tab_switch, fullscreen_exit] freshWorld) ''s1''
       = Some False
   \<and> \<not> flagged (recordAll [tab_switch, tab_switch, tab_switch, fullscreen_exit] freshWorld)"
  by (simp add: recordAll_def recordViolation_def visibilityHidden_def fullscreenChange_def
      violationFrom_def visibilityEffect_def fullscreenEffect_def handleSecurityViolation_def
      flagged_def rowFlagged_def rowTotal_def freshWorld_def startedView_def
      freshSession_def freshRow_def counter_def or_zero_def Let_def)


text \<open>
  Claim C3 at a concrete run.  Three tab switches flag the session and schedule the automatic
  submission; the student then presses the submit button, which stores one attempt and sets
  \<^verbatim>\<open>isSubmitting\<close>; when the time-out fires, its handler still reads the
  \<^verbatim>\<open>isSubmitting\<close> of the render that scheduled it, passes the guard and stores a
  second attempt.
\<close>

theorem stale_guard_double_attempt:
  "length (attempts (recordAll [tab_switch, tab_switch, tab_switch] freshWorld)) = 0
   \<and> length (attempts (clickSubmit (recordAll [tab_switch, tab_switch, tab_switch] freshWorld))) = 1
   \<and> isSubmitting (view (clickSubmit (recordAll [tab_switch, tab_switch, tab_switch] freshWorld)))
   \<and> length (attempts (fireTimeout (clickSubmit (recordAll [tab_switch, tab_switch, tab_switch] freshWorld)))) = 2"
  by (simp add: recordAll_def recordViolation_def visibilityHidden_def violationFrom_def
      visibilityEffect_def handleSecurityViolation_def clickSubmit_def
      fireTimeout_def handleSubmitExam_def freshWorld_def startedView_def freshSession_def freshRow_def
      counter_def or_zero_def Let_def split: prod.splits)


text \<open>
  The first half of C8 fails on the exam page: \<^verbatim>\<open>handleAnswerSelect\<close> has no guard, so
  an answer chosen while the submission is under way changes the answer map.
\<close>

theorem answer_after_submit_counterexample:
  "isSubmitting (view submittingWorld)
   \<and> answers (view (clickAnswer ''a'' 1 submittingWorld)) \<noteq> answers (view submittingWorld)"
proof -
  have "answers (view (clickAnswer ''a'' 1 submittingWorld)) ''a'' = Some 1"
    by (simp add: clickAnswer_def handleAnswerSelect_def)
  moreover have "answers (view submittingWorld) ''a'' = None"
    by (simp add: submittingWorld_def freshWorld_def startedView_def)
  ultimately have "answers (view (clickAnswer ''a'' 1 submittingWorld)) \<noteq> answers (view submittingWorld)"
    by (metis option.distinct(1))
  then show ?thesis by (simp add: submittingWorld_def)
qed


end
